theory Spec2Isabelle
  imports Main "HOL-Library.Word"
begin

unbundle bit_operations_syntax

section \<open>Data model of the folder loop (src/gui/folder.cpp)\<close>

text \<open>
  The development embeds the slots of \<open>OCC::Folder\<close> that drive one sync root.
  A folder is a record of the members the slots read and write. The collaborators
  whose sources are not part of folder.cpp (journal, engine, tracker, sync result)
  are records of the state that folder.cpp observes through their accessors; calls
  whose effect folder.cpp never reads back, and emitted signals, are appended in
  program order to the \<open>effects\<close> list of the folder.
\<close>

type_synonym QString = string

text \<open>\<open>SyncResult::Status\<close>, the states of the folder loop.\<close>

datatype Status =
    NotYetStarted | SyncPrepare | SyncRunning | SyncAbortRequested
  | Success | Problem | Error | SetupError | Paused

datatype LocalDiscoveryStyle = FilesystemOnly | DatabaseAndFilesystem

datatype AnotherSyncNeeded = NoFollowUpSync | ImmediateFollowUp | DelayedFollowUp

text \<open>\<open>Folder::ChangeReason\<close> of a watcher notification.\<close>

datatype ChangeReason = Other | UnLock

text \<open>\<open>SyncJournalErrorBlacklistRecord::Category\<close> (the categories the specification lists).\<close>

datatype Category = Normal | LocalSoftError | FileLocked

datatype SelectiveSyncListType =
  SelectiveSyncBlackList | SelectiveSyncWhiteList | SelectiveSyncUndecidedList

datatype PinState = Inherited | AlwaysLocal | OnlineOnly | Unspecified

datatype ItemType = ItemTypeFile | ItemTypeDirectory | ItemTypeVirtualFile | ItemTypeSoftLink

text \<open>\<open>SyncFileItem::Status\<close>; the source's \<open>SyncFileItem::Success\<close> is \<open>ItemSuccess\<close>.\<close>

datatype ItemStatus =
    NoStatus | ItemSuccess | Warning | SoftError | NormalError | FatalError
  | ItemFileLocked | FileIgnored | Conflict | Restoration | Blacklisted

datatype SyncInstruction =
    CSYNC_INSTRUCTION_NONE | CSYNC_INSTRUCTION_NEW | CSYNC_INSTRUCTION_UPDATE_METADATA
  | CSYNC_INSTRUCTION_RENAME | CSYNC_INSTRUCTION_REMOVE | CSYNC_INSTRUCTION_CONFLICT
  | CSYNC_INSTRUCTION_IGNORE | CSYNC_INSTRUCTION_ERROR | CSYNC_INSTRUCTION_SYNC
  | CSYNC_INSTRUCTION_UPDATE_VFS_METADATA | CSYNC_INSTRUCTION_TYPE_CHANGE

record SyncFileItem =
  item_file :: QString
  item_status :: ItemStatus
  item_instruction :: SyncInstruction

record SyncOptions =
  newBigFolderSizeLimit :: int
  confirmExternalStorage :: bool
  moveFilesToTrash :: bool
  parallelNetworkJobs :: int
  initialChunkSize :: int
  minChunkSize :: int
  maxChunkSize :: int
  targetChunkUploadDuration :: int

text \<open>The messages handed to the tray; the translated texts are not modelled.\<close>

datatype TrayMessage =
    NewBigFolderMessage int QString
  | ExternalStorageFolderMessage
  | ExcludedFolderCreatedMessage QString
  | ExcludedFileCreatedMessage QString

text \<open>Calls into collaborators and emitted signals, in program order.\<close>

datatype Effect =
    EngineAbort
  | EngineStartSyncQueued
  | EngineSetNetworkLimits int int
  | EngineSetSyncOptions SyncOptions
  | EngineSetIgnoreHiddenFiles bool
  | TrackerStartSyncPartialDiscovery
  | TrackerStartSyncFullDiscovery
  | FileLogStart QString
  | FileLogFinish
  | FileLogItem SyncFileItem
  | ShowSyncResultPopup
  | ShowOptionalTrayMessage TrayMessage
  | SlotSyncFinishedQueued bool
  | SlotEmitFinishedDelayedSingleShot
  | EmitSyncStateChange
  | EmitSyncStarted
  | EmitSyncError QString QString
  | EmitItemCompleted QString SyncFileItem
  | EmitNewBigFolderDiscovered QString
  | EmitWatchedFileChangedExternally QString

text \<open>
  A \<open>QElapsedTimer\<close>: \<open>None\<close> is the invalid timer, \<open>Some t0\<close> one started at
  clock value \<open>t0\<close> (milliseconds). The members \<open>_timeSinceLastSyncStart\<close> and
  \<open>_timeSinceLastSyncDone\<close> are started in the constructor and never invalidated,
  so the folder keeps their start values only.
\<close>

type_synonym QElapsedTimer = "int option"

record SyncResult =
  status :: Status
  errorStrings :: "QString list"
  foundFilesNotSynced :: bool

record SyncJournalErrorBlacklistRecord =
  errorCategory :: Category
  retryCount :: int
  ignoreDuration :: int
  errorString :: QString

record SyncJournalFileRecord =
  rec_fileSize :: int
  rec_modtime :: int
  rec_type :: ItemType

record SyncJournalDb =
  selectiveSyncList :: "SelectiveSyncListType \<Rightarrow> QString list"
  selectiveSyncListOk :: "SelectiveSyncListType \<Rightarrow> bool"
  errorBlacklist :: "QString \<rightharpoonup> SyncJournalErrorBlacklistRecord"
  fileRecords :: "QString \<rightharpoonup> SyncJournalFileRecord"

record SyncEngine =
  engine_isSyncRunning :: bool
  engine_isAnotherSyncNeeded :: AnotherSyncNeeded
  engine_lastLocalDiscoveryStyle :: LocalDiscoveryStyle
  engine_localDiscoveryStyle :: LocalDiscoveryStyle
  engine_localDiscoveryPaths :: "QString set"
  engine_wasFileTouched :: "QString \<Rightarrow> bool"

record FolderWatcher =
  isReliable :: bool

record LocalDiscoveryTracker =
  localDiscoveryPaths :: "QString set"

record Vfs =
  isHydrating :: bool
  pinState :: "QString \<Rightarrow> PinState option"

record Folder =
  definition_alias :: QString
  definition_paused :: bool
  definition_ignoreHiddenFiles :: bool
  canonicalLocalPath :: QString
  syncResult :: SyncResult
  lastSyncDuration :: int
  consecutiveFailingSyncs :: "32 word"
  consecutiveFollowUpSyncs :: "32 word"
  journal :: SyncJournalDb
  engine :: SyncEngine
  vfs :: Vfs
  vfsIsReady :: bool
  folderWatcher :: "FolderWatcher option"
  localDiscoveryTracker :: LocalDiscoveryTracker
  timeSinceLastSyncStart :: int
  timeSinceLastSyncDone :: int
  timeSinceLastFullLocalDiscovery :: QElapsedTimer
  scheduleSelfTimerActive :: bool
  effects :: "Effect list"

section \<open>Small members of Folder\<close>

definition emit :: "Effect \<Rightarrow> Folder \<Rightarrow> Folder" where
  "emit e f = f\<lparr>effects := effects f @ [e]\<rparr>"

text \<open>\<open>Folder::setSyncState\<close>: \<open>_syncResult.setStatus(state)\<close>.\<close>

definition setSyncState :: "Status \<Rightarrow> Folder \<Rightarrow> Folder" where
  "setSyncState state f = f\<lparr>syncResult := (syncResult f)\<lparr>status := state\<rparr>\<rparr>"

text \<open>
  Modelled from the spec: \<open>Folder::hasSetupError\<close> (folder.h is not among the sources):
  the folder is in the state \<open>setup_error\<close>.
\<close>

definition hasSetupError :: "Folder \<Rightarrow> bool" where
  "hasSetupError f = (status (syncResult f) = SetupError)"

text \<open>\<open>Folder::isSyncRunning\<close>.\<close>

definition isSyncRunning :: "Folder \<Rightarrow> bool" where
  "isSyncRunning f =
     (\<not> hasSetupError f \<and> (engine_isSyncRunning (engine f) \<or> isHydrating (vfs f)))"

text \<open>\<open>Folder::scheduleThisFolderSoon\<close>: start the single-shot timer unless it is active.\<close>

definition scheduleThisFolderSoon :: "Folder \<Rightarrow> Folder" where
  "scheduleThisFolderSoon f =
     (if \<not> scheduleSelfTimerActive f then f\<lparr>scheduleSelfTimerActive := True\<rparr> else f)"

section \<open>Folder::slotTerminateSync\<close>

definition slotTerminateSync :: "Folder \<Rightarrow> Folder" where
  "slotTerminateSync f =
     (if engine_isSyncRunning (engine f)
      then setSyncState SyncAbortRequested (emit EngineAbort f)
      else f)"

section \<open>The journal as folder.cpp uses it\<close>

text \<open>
  \<open>SyncJournalDb\<close> (common/syncjournaldb.cpp) is not among the sources. The
  specification describes its selective-sync lists (blacklist, whitelist, undecided)
  and its error blacklist, keyed by path with a category per entry; the operations
  that folder.cpp calls are modelled on these tables.
\<close>

text \<open>
  Modelled from the spec: \<open>SyncJournalDb::getSelectiveSyncList(type, &ok)\<close> returns the
  list of the type; its \<open>ok\<close> flag tells whether the list could be read, which is a
  field of the journal state.
\<close>

definition getSelectiveSyncList ::
  "SyncJournalDb \<Rightarrow> SelectiveSyncListType \<Rightarrow> QString list \<times> bool" where
  "getSelectiveSyncList j t =
     (if selectiveSyncListOk j t then (selectiveSyncList j t, True) else ([], False))"

text \<open>
  Modelled from the spec: \<open>SyncJournalDb::setSelectiveSyncList(type, list)\<close> replaces
  the list of the type.
\<close>

definition setSelectiveSyncList ::
  "SelectiveSyncListType \<Rightarrow> QString list \<Rightarrow> SyncJournalDb \<Rightarrow> SyncJournalDb" where
  "setSelectiveSyncList t l j = j\<lparr>selectiveSyncList := (selectiveSyncList j)(t := l)\<rparr>"

text \<open>
  Modelled from the spec: \<open>SyncJournalDb::errorBlacklistEntry(path)\<close> returns the
  record of the path, valid (\<open>Some\<close>) when the path has an entry.
\<close>

definition errorBlacklistEntry ::
  "SyncJournalDb \<Rightarrow> QString \<Rightarrow> SyncJournalErrorBlacklistRecord option" where
  "errorBlacklistEntry j p = errorBlacklist j p"

text \<open>
  Modelled from the spec: \<open>SyncJournalDb::wipeErrorBlacklistEntry(path)\<close> deletes the
  entry of the path.
\<close>

definition wipeErrorBlacklistEntry :: "QString \<Rightarrow> SyncJournalDb \<Rightarrow> SyncJournalDb" where
  "wipeErrorBlacklistEntry p j = j\<lparr>errorBlacklist := (errorBlacklist j)(p := None)\<rparr>"

text \<open>
  Modelled from the spec: \<open>SyncJournalDb::wipeErrorBlacklistEntry(path, category)\<close>
  deletes the entry of the path if it has the category.
\<close>

definition wipeErrorBlacklistEntryCategory ::
  "QString \<Rightarrow> Category \<Rightarrow> SyncJournalDb \<Rightarrow> SyncJournalDb" where
  "wipeErrorBlacklistEntryCategory p c j =
     (case errorBlacklist j p of
        None \<Rightarrow> j
      | Some r \<Rightarrow> if errorCategory r = c then wipeErrorBlacklistEntry p j else j)"

text \<open>
  Modelled from the spec: \<open>SyncJournalDb::wipeErrorBlacklistCategory(category)\<close>
  deletes every entry of the category.
\<close>

definition wipeErrorBlacklistCategory :: "Category \<Rightarrow> SyncJournalDb \<Rightarrow> SyncJournalDb" where
  "wipeErrorBlacklistCategory c j =
     j\<lparr>errorBlacklist :=
         (\<lambda>p. case errorBlacklist j p of
                None \<Rightarrow> None
              | Some r \<Rightarrow> if errorCategory r = c then None else Some r)\<rparr>"

section \<open>Folder::slotItemCompleted\<close>

text \<open>
  The numeric values of the \<open>CSYNC_INSTRUCTION_*\<close> enumerators (csync.h) and
  \<open>SyncResult::processCompletedItem\<close> (syncresult.cpp) are not among the sources:
  the slot takes the enumerators' values \<open>enc\<close> and the fold \<open>processCompletedItem\<close>
  as parameters. The test is the source's bit test
  \<open>_instruction & (CSYNC_INSTRUCTION_NONE | CSYNC_INSTRUCTION_UPDATE_METADATA)\<close>.
\<close>

definition slotItemCompleted ::
  "(SyncInstruction \<Rightarrow> nat) \<Rightarrow> (SyncFileItem \<Rightarrow> SyncResult \<Rightarrow> SyncResult)
     \<Rightarrow> SyncFileItem \<Rightarrow> Folder \<Rightarrow> Folder" where
  "slotItemCompleted enc processCompletedItem item f =
     (if item_status item = ItemSuccess
         \<and> (enc (item_instruction item)
               AND (enc CSYNC_INSTRUCTION_NONE OR enc CSYNC_INSTRUCTION_UPDATE_METADATA)) \<noteq> 0
      then f
      else emit (EmitItemCompleted (definition_alias f) item)
             (emit (FileLogItem item)
                (f\<lparr>syncResult := processCompletedItem item (syncResult f)\<rparr>)))"

section \<open>Folder::slotSyncFinished\<close>

text \<open>
  \<open>now\<close> is the clock value at which the slot runs, \<open>success\<close> the engine's report.
  \<open>showSyncResultPopup\<close> only raises tray messages and is one effect. The counters
  are C++ \<open>int\<close>: 32-bit words read as signed. Each block of statements of the slot
  is a definition of its own, introduced by the comment the source gives it, and the
  slot runs the blocks in the order of the source.
\<close>

text \<open>The status cascade: \<open>Error\<close>, \<open>Problem\<close>, \<open>Paused\<close> or \<open>Success\<close>.\<close>

definition setFinishedStatus :: "bool \<Rightarrow> Folder \<Rightarrow> Folder" where
  "setFinishedStatus syncError f =
     (if syncError then setSyncState Error f
      else if foundFilesNotSynced (syncResult f) then setSyncState Problem f
      else if definition_paused f then setSyncState Paused f
      else setSyncState Success f)"

text \<open>"Count the number of syncs that have failed in a row."\<close>

definition countFailingSyncs :: "Folder \<Rightarrow> Folder" where
  "countFailingSyncs f =
     (if status (syncResult f) = Success \<or> status (syncResult f) = Problem
      then f\<lparr>consecutiveFailingSyncs := 0\<rparr>
      else f\<lparr>consecutiveFailingSyncs := consecutiveFailingSyncs f + 1\<rparr>)"

text \<open>"Clear the white list as all the folders that should be on that list are sync-ed."\<close>

definition clearWhiteList :: "bool \<Rightarrow> Folder \<Rightarrow> Folder" where
  "clearWhiteList success f =
     (if status (syncResult f) = Success \<and> success
      then f\<lparr>journal := setSelectiveSyncList SelectiveSyncWhiteList [] (journal f)\<rparr>
      else f)"

text \<open>A successful full run restarts \<open>_timeSinceLastFullLocalDiscovery\<close>.\<close>

definition restartFullLocalDiscoveryTimer :: "int \<Rightarrow> bool \<Rightarrow> Folder \<Rightarrow> Folder" where
  "restartFullLocalDiscoveryTimer now success f =
     (if (status (syncResult f) = Success \<or> status (syncResult f) = Problem) \<and> success
      then (if engine_lastLocalDiscoveryStyle (engine f) = FilesystemOnly
            then f\<lparr>timeSinceLastFullLocalDiscovery := Some now\<rparr>
            else f)
      else f)"

text \<open>"Increment the follow-up sync counter if necessary."\<close>

definition countFollowUpSyncs :: "AnotherSyncNeeded \<Rightarrow> Folder \<Rightarrow> Folder" where
  "countFollowUpSyncs anotherSyncNeeded f =
     (if anotherSyncNeeded = ImmediateFollowUp
      then f\<lparr>consecutiveFollowUpSyncs := consecutiveFollowUpSyncs f + 1\<rparr>
      else f\<lparr>consecutiveFollowUpSyncs := 0\<rparr>)"

text \<open>"Maybe force a follow-up sync to take place, but only a couple of times."\<close>

definition forceFollowUpSync :: "AnotherSyncNeeded \<Rightarrow> Folder \<Rightarrow> Folder" where
  "forceFollowUpSync anotherSyncNeeded f =
     (if anotherSyncNeeded = ImmediateFollowUp \<and> sint (consecutiveFollowUpSyncs f) \<le> 3
      then scheduleThisFolderSoon f
      else f)"

text \<open>The slot runs the blocks above in the order of the source.\<close>

definition slotSyncFinished :: "int \<Rightarrow> bool \<Rightarrow> Folder \<Rightarrow> Folder" where
  "slotSyncFinished now success f0 =
     (let syncError = (errorStrings (syncResult f0) \<noteq> []);
          f1 = emit ShowSyncResultPopup (emit FileLogFinish f0);
          anotherSyncNeeded = engine_isAnotherSyncNeeded (engine f1);
          f2 = setFinishedStatus syncError f1;
          f3 = countFailingSyncs f2;
          f4 = clearWhiteList success f3;
          f5 = restartFullLocalDiscoveryTimer now success f4;
          f6 = emit SlotEmitFinishedDelayedSingleShot (emit EmitSyncStateChange f5);
          f7 = f6\<lparr>lastSyncDuration := now - timeSinceLastSyncStart f6,
                  timeSinceLastSyncDone := now\<rparr>;
          f8 = countFollowUpSyncs anotherSyncNeeded f7
      in forceFollowUpSync anotherSyncNeeded f8)"

text \<open>
  A chain of finished runs, to count forced follow-ups. Each element is what one run
  reports when it finishes: the clock, the engine's success flag and its follow-up
  request. A run is started by the single-shot timer (or another trigger), so the
  timer is inactive when the run finishes; the result lists, run by run, whether
  finishing it armed the timer again.
\<close>

fun finishedRuns :: "(int \<times> bool \<times> AnotherSyncNeeded) list \<Rightarrow> Folder \<Rightarrow> bool list" where
  "finishedRuns [] f = []"
| "finishedRuns ((now, success, another) # runs) f =
     (let f' = slotSyncFinished now success
                 (f\<lparr>engine := (engine f)\<lparr>engine_isAnotherSyncNeeded := another\<rparr>,
                    scheduleSelfTimerActive := False\<rparr>)
      in scheduleSelfTimerActive f' # finishedRuns runs f')"

section \<open>Folder::slotNewBigFolderDiscovered\<close>

text \<open>\<open>QString::endsWith(QChar)\<close>.\<close>

definition endsWith :: "QString \<Rightarrow> char \<Rightarrow> bool" where
  "endsWith s c = (s \<noteq> [] \<and> last s = c)"

text \<open>\<open>limitMB\<close> is \<open>ConfigFile().newBigFolderSizeLimit().second\<close>, used in the message only.\<close>

definition slotNewBigFolderDiscovered :: "int \<Rightarrow> QString \<Rightarrow> bool \<Rightarrow> Folder \<Rightarrow> Folder" where
  "slotNewBigFolderDiscovered limitMB newF isExternal f0 =
     (let newFolder = (if \<not> endsWith newF CHR ''/'' then newF @ ''/'' else newF);
          (blacklist, ok1) = getSelectiveSyncList (journal f0) SelectiveSyncBlackList;
          (whitelist, ok2) = getSelectiveSyncList (journal f0) SelectiveSyncWhiteList;
          f1 = (if ok1 \<and> ok2 \<and> newFolder \<notin> set blacklist \<and> newFolder \<notin> set whitelist
                then f0\<lparr>journal := setSelectiveSyncList SelectiveSyncBlackList
                                       (blacklist @ [newFolder]) (journal f0)\<rparr>
                else f0);
          (undecidedList, ok1') = getSelectiveSyncList (journal f1) SelectiveSyncUndecidedList
      in if ok1'
         then (let f2 = (if newFolder \<notin> set undecidedList
                         then emit (EmitNewBigFolderDiscovered newFolder)
                                (f1\<lparr>journal := setSelectiveSyncList SelectiveSyncUndecidedList
                                                  (undecidedList @ [newFolder]) (journal f1)\<rparr>)
                         else f1)
               in emit (ShowOptionalTrayMessage
                          (if \<not> isExternal then NewBigFolderMessage limitMB newF
                           else ExternalStorageFolderMessage)) f2)
         else f1)"

section \<open>Folder::slotWatchedPathChanged\<close>

text \<open>\<open>Folder::path\<close>: the canonical local path (it ends with a slash).\<close>

definition path :: "Folder \<Rightarrow> QString" where
  "path f = canonicalLocalPath f"

text \<open>
  \<open>QString::lastIndexOf(QChar)\<close> (the index of the last occurrence, or \<open>-1\<close>),
  \<open>QString::left(n)\<close> (the whole string when \<open>n\<close> is negative or too large) and
  \<open>QString::mid(position)\<close>.
\<close>

fun lastIndexOf :: "QString \<Rightarrow> char \<Rightarrow> int" where
  "lastIndexOf [] c = -1"
| "lastIndexOf (x # xs) c =
     (if lastIndexOf xs c \<noteq> -1 then lastIndexOf xs c + 1
      else if x = c then 0 else -1)"

definition left :: "QString \<Rightarrow> int \<Rightarrow> QString" where
  "left s n = (if n < 0 \<or> int (length s) \<le> n then s else take (nat n) s)"

definition mid :: "QString \<Rightarrow> nat \<Rightarrow> QString" where
  "mid s position = drop position s"

lemma lastIndexOf_bounds: "- 1 \<le> lastIndexOf s c \<and> lastIndexOf s c < int (length s)"
  by (induction s) auto

text \<open>
  The loop of the unlock block ("horrible hack to compensate that we don't handle
  folder deletes on a per file basis"): cut the path at its last slash, and wipe the
  entry of the prefix when it is valid and of category \<open>LocalSoftError\<close>.
\<close>

function wipeParentSoftErrors :: "QString \<Rightarrow> SyncJournalDb \<Rightarrow> SyncJournalDb" where
  "wipeParentSoftErrors p j =
     (if lastIndexOf p CHR ''/'' \<noteq> -1
      then wipeParentSoftErrors (left p (lastIndexOf p CHR ''/''))
             (case errorBlacklistEntry j (left p (lastIndexOf p CHR ''/'')) of
                None \<Rightarrow> j
              | Some rec \<Rightarrow>
                  if errorCategory rec = LocalSoftError
                  then wipeErrorBlacklistEntry (left p (lastIndexOf p CHR ''/'')) j
                  else j)
      else j)"
  by pat_completeness auto

termination wipeParentSoftErrors
proof (relation "measure (\<lambda>(p, j). length p)")
  show "wf (measure (\<lambda>(p, j). length p))" by simp
next
  fix p :: QString and j :: SyncJournalDb
  assume "lastIndexOf p CHR ''/'' \<noteq> - 1"
  with lastIndexOf_bounds [of p "CHR ''/''"]
  have "0 \<le> lastIndexOf p CHR ''/''" "lastIndexOf p CHR ''/'' < int (length p)"
    by auto
  then have "length (left p (lastIndexOf p CHR ''/'')) < length p"
    by (simp add: left_def)
  then show "((left p (lastIndexOf p CHR ''/''),
               case errorBlacklistEntry j (left p (lastIndexOf p CHR ''/'')) of
                 None \<Rightarrow> j
               | Some rec \<Rightarrow>
                   if errorCategory rec = LocalSoftError
                   then wipeErrorBlacklistEntry (left p (lastIndexOf p CHR ''/'')) j
                   else j), p, j)
             \<in> measure (\<lambda>(p, j). length p)"
    by simp
qed

text \<open>The equation of the loop is unfolded by hand, one iteration at a time.\<close>

declare wipeParentSoftErrors.simps [simp del]

text \<open>The block run for \<open>ChangeReason::UnLock\<close>.\<close>

definition wipeSoftErrorsOnUnlock :: "QString \<Rightarrow> Folder \<Rightarrow> Folder" where
  "wipeSoftErrorsOnUnlock relativePath f =
     f\<lparr>journal :=
         wipeParentSoftErrors relativePath
           (wipeErrorBlacklistEntryCategory relativePath LocalSoftError (journal f))\<rparr>"

text \<open>
  Modelled from the spec: \<open>LocalDiscoveryTracker::addTouchedPath\<close>
  (localdiscoverytracker.cpp is not among the sources) appends the path to the
  touched-set that local discovery reads.
\<close>

definition addTouchedPath :: "QString \<Rightarrow> Folder \<Rightarrow> Folder" where
  "addTouchedPath relativePath f =
     f\<lparr>localDiscoveryTracker :=
         (localDiscoveryTracker f)\<lparr>localDiscoveryPaths :=
            insert relativePath (localDiscoveryPaths (localDiscoveryTracker f))\<rparr>\<rparr>"

text \<open>
  What a notification reads from outside the folder: \<open>FileSystem::isChildPathOf\<close>,
  \<open>FileSystem::fileChanged\<close> and \<open>QFileInfo\<close> (none of them among the sources), and
  whether the build is the macOS one (\<open>Q_OS_MAC\<close>).
\<close>

record WatchEnvironment =
  watch_isChildPathOf :: "QString \<Rightarrow> QString \<Rightarrow> bool"
  watch_osMac :: bool
  watch_fileChanged :: "QString \<Rightarrow> int \<Rightarrow> int \<Rightarrow> bool"
  watch_exists :: "QString \<Rightarrow> bool"
  watch_isDir :: "QString \<Rightarrow> bool"

text \<open>
  Modelled from the spec: \<open>SyncJournalFileRecord::isVirtualFile\<close>
  (common/syncjournalfilerecord.h is not among the sources), on the kinds the
  specification lists.
\<close>

definition isVirtualFile :: "SyncJournalFileRecord \<Rightarrow> bool" where
  "isVirtualFile r = (rec_type r = ItemTypeVirtualFile)"

text \<open>
  Modelled from the spec: \<open>SyncJournalFileRecord::isFile\<close>, on the kinds the
  specification lists.
\<close>

definition isFile :: "SyncJournalFileRecord \<Rightarrow> bool" where
  "isFile r = (rec_type r = ItemTypeFile)"

text \<open>
  Modelled from the spec: \<open>SyncJournalDb::getFileRecord(path, &record)\<close> fills the
  record, valid (\<open>Some\<close>) when the journal has one for the path.
\<close>

definition getFileRecord :: "SyncJournalDb \<Rightarrow> QString \<Rightarrow> SyncJournalFileRecord option" where
  "getFileRecord j relativePath = fileRecords j relativePath"

text \<open>
  The flag \<open>spurious\<close>: "Check that the mtime/size actually changed or there was an
  attribute change (pin state) that caused the notification".
\<close>

definition spurious ::
  "WatchEnvironment \<Rightarrow> Folder \<Rightarrow> QString \<Rightarrow> QString \<Rightarrow> SyncJournalFileRecord option \<Rightarrow> bool" where
  "spurious env f path' relativePath record =
     (case record of
        None \<Rightarrow> False
      | Some r \<Rightarrow>
          if \<not> watch_fileChanged env path' (rec_fileSize r) (rec_modtime r)
          then (case pinState (vfs f) relativePath of
                  None \<Rightarrow> True
                | Some ps \<Rightarrow>
                    \<not> ((ps = AlwaysLocal \<and> isVirtualFile r) \<or> (ps = OnlineOnly \<and> isFile r)))
          else False)"

text \<open>\<open>Folder::warnOnNewExcludedItem\<close>.\<close>

definition warnOnNewExcludedItem ::
  "WatchEnvironment \<Rightarrow> SyncJournalFileRecord option \<Rightarrow> QString \<Rightarrow> Folder \<Rightarrow> Folder" where
  "warnOnNewExcludedItem env record path' f =
     (if record \<noteq> None then f
      else if \<not> watch_exists env (canonicalLocalPath f @ path') then f
      else (let (blacklist, ok) = getSelectiveSyncList (journal f) SelectiveSyncBlackList
            in if \<not> ok then f
               else if path' @ ''/'' \<notin> set blacklist then f
               else emit (ShowOptionalTrayMessage
                            (if watch_isDir env (canonicalLocalPath f @ path')
                             then ExcludedFolderCreatedMessage (canonicalLocalPath f @ path')
                             else ExcludedFileCreatedMessage (canonicalLocalPath f @ path'))) f))"

text \<open>The part of the slot after the touched path has been recorded.\<close>

definition notifyAndSchedule ::
  "WatchEnvironment \<Rightarrow> QString \<Rightarrow> QString \<Rightarrow> ChangeReason \<Rightarrow> Folder \<Rightarrow> Folder" where
  "notifyAndSchedule env path' relativePath reason f =
     (if \<not> watch_osMac env \<and> engine_wasFileTouched (engine f) path' then f
      else if reason \<noteq> UnLock
              \<and> spurious env f path' relativePath (getFileRecord (journal f) relativePath)
      then f
      else scheduleThisFolderSoon
             (emit (EmitWatchedFileChangedExternally path')
                (warnOnNewExcludedItem env (getFileRecord (journal f) relativePath)
                   relativePath f)))"

definition slotWatchedPathChanged ::
  "WatchEnvironment \<Rightarrow> QString \<Rightarrow> ChangeReason \<Rightarrow> Folder \<Rightarrow> Folder" where
  "slotWatchedPathChanged env path' reason f =
     (if \<not> watch_isChildPathOf env path' (path f) then f
      else (let relativePath = mid path' (length (path f));
                f1 = (if reason = UnLock then wipeSoftErrorsOnUnlock relativePath f else f);
                f2 = addTouchedPath relativePath f1
            in notifyAndSchedule env path' relativePath reason f2))"

section \<open>Folder::startSync and the options of a run\<close>

text \<open>The values read from \<open>ConfigFile\<close> (configfile.cpp is not among the sources).\<close>

record ConfigFile =
  cfg_newBigFolderSizeLimit :: "bool \<times> int"
  cfg_confirmExternalStorage :: bool
  cfg_moveToTrash :: bool
  cfg_chunkSize :: int
  cfg_minChunkSize :: int
  cfg_maxChunkSize :: int
  cfg_targetChunkUploadDuration :: int
  cfg_useDownloadLimit :: int
  cfg_downloadLimit :: int
  cfg_useUploadLimit :: int
  cfg_uploadLimit :: int

text \<open>
  What \<open>startSync\<close> reads from outside the folder: the clock, the outcome of
  \<open>reloadExcludes()\<close>, the static \<open>fullLocalDiscoveryInterval\<close> (the configured
  interval, or the environment's override), whether the account supports HTTP/2,
  the configuration, and the two members of \<open>SyncOptions\<close> (syncoptions.cpp is not
  among the sources) that \<open>setSyncOptions\<close> calls before it hands the options to
  the engine. \<open>env_invalidTimerHasExpired\<close> is what \<open>hasExpired\<close> answers on an
  invalid timer, which Qt leaves undefined.
\<close>

record SyncEnvironment =
  env_now :: int
  env_reloadExcludes :: bool
  env_fullLocalDiscoveryInterval :: int
  env_invalidTimerHasExpired :: bool
  env_isHttp2Supported :: bool
  env_config :: ConfigFile
  env_fillFromEnvironmentVariables :: "SyncOptions \<Rightarrow> SyncOptions"
  env_verifyChunkSizes :: "SyncOptions \<Rightarrow> SyncOptions"

text \<open>
  \<open>QElapsedTimer::isValid\<close> and \<open>QElapsedTimer::hasExpired(timeout)\<close>, which is
  \<open>quint64(elapsed()) > quint64(timeout)\<close>.
\<close>

definition isValid :: "QElapsedTimer \<Rightarrow> bool" where
  "isValid t = (t \<noteq> None)"

definition quint64 :: "int \<Rightarrow> int" where
  "quint64 x = x mod 2 ^ 64"

definition hasExpired :: "SyncEnvironment \<Rightarrow> QElapsedTimer \<Rightarrow> int \<Rightarrow> bool" where
  "hasExpired env t timeout =
     (case t of
        None \<Rightarrow> env_invalidTimerHasExpired env
      | Some t0 \<Rightarrow> quint64 timeout < quint64 (env_now env - t0))"

text \<open>
  Modelled from the spec: \<open>SyncResult::appendErrorString\<close> (syncresult.cpp is not among
  the sources) attaches the error to the result of the run.
\<close>

definition appendErrorString :: "QString \<Rightarrow> SyncResult \<Rightarrow> SyncResult" where
  "appendErrorString message r = r\<lparr>errorStrings := errorStrings r @ [message]\<rparr>"

text \<open>\<open>Folder::slotSyncError\<close>.\<close>

definition slotSyncError :: "QString \<Rightarrow> Folder \<Rightarrow> Folder" where
  "slotSyncError message f =
     emit (EmitSyncError (definition_alias f) message)
       (f\<lparr>syncResult := appendErrorString message (syncResult f)\<rparr>)"

text \<open>\<open>Folder::setDirtyNetworkLimits\<close>; \<open>-75\<close> stands for 75 percent.\<close>

definition setDirtyNetworkLimits :: "ConfigFile \<Rightarrow> Folder \<Rightarrow> Folder" where
  "setDirtyNetworkLimits cfg f =
     (let downloadLimit =
            (if 1 \<le> cfg_useDownloadLimit cfg then cfg_downloadLimit cfg * 1000
             else if cfg_useDownloadLimit cfg = 0 then 0 else - 75);
          uploadLimit =
            (if 1 \<le> cfg_useUploadLimit cfg then cfg_uploadLimit cfg * 1000
             else if cfg_useUploadLimit cfg = 0 then 0 else - 75)
      in emit (EngineSetNetworkLimits uploadLimit downloadLimit) f)"

text \<open>\<open>Folder::setSyncOptions\<close>.\<close>

definition setSyncOptions :: "SyncEnvironment \<Rightarrow> Folder \<Rightarrow> Folder" where
  "setSyncOptions env f =
     (let cfgFile = env_config env;
          newFolderLimit = cfg_newBigFolderSizeLimit cfgFile;
          opt = \<lparr> newBigFolderSizeLimit =
                    (if fst newFolderLimit then snd newFolderLimit * 1000 * 1000 else - 1),
                  confirmExternalStorage = cfg_confirmExternalStorage cfgFile,
                  moveFilesToTrash = cfg_moveToTrash cfgFile,
                  parallelNetworkJobs = (if env_isHttp2Supported env then 20 else 6),
                  initialChunkSize = cfg_chunkSize cfgFile,
                  minChunkSize = cfg_minChunkSize cfgFile,
                  maxChunkSize = cfg_maxChunkSize cfgFile,
                  targetChunkUploadDuration = cfg_targetChunkUploadDuration cfgFile \<rparr>
      in emit (EngineSetSyncOptions
                 (env_verifyChunkSizes env (env_fillFromEnvironmentVariables env opt))) f)"

text \<open>
  The choice of the local discovery style in \<open>startSync\<close>. With
  \<open>DatabaseAndFilesystem\<close> the engine gets the tracker's touched paths, with
  \<open>FilesystemOnly\<close> the default empty set.
\<close>

definition setLocalDiscoveryOptions :: "SyncEnvironment \<Rightarrow> Folder \<Rightarrow> Folder" where
  "setLocalDiscoveryOptions env f =
     (let hasDoneFullLocalDiscovery = isValid (timeSinceLastFullLocalDiscovery f);
          periodicFullLocalDiscoveryNow =
            (0 \<le> env_fullLocalDiscoveryInterval env
             \<and> hasExpired env (timeSinceLastFullLocalDiscovery f)
                  (env_fullLocalDiscoveryInterval env))
      in if (case folderWatcher f of None \<Rightarrow> False | Some w \<Rightarrow> isReliable w)
            \<and> hasDoneFullLocalDiscovery
            \<and> \<not> periodicFullLocalDiscoveryNow
         then emit TrackerStartSyncPartialDiscovery
                (f\<lparr>engine := (engine f)
                      \<lparr>engine_localDiscoveryStyle := DatabaseAndFilesystem,
                       engine_localDiscoveryPaths :=
                         localDiscoveryPaths (localDiscoveryTracker f)\<rparr>\<rparr>)
         else emit TrackerStartSyncFullDiscovery
                (f\<lparr>engine := (engine f)
                      \<lparr>engine_localDiscoveryStyle := FilesystemOnly,
                       engine_localDiscoveryPaths := {}\<rparr>\<rparr>))"

text \<open>
  \<open>Folder::startSync\<close>. It returns at once when a sync is still running, and gives
  up (queuing \<open>slotSyncFinished(false)\<close>) when the excludes cannot be read;
  otherwise it configures the engine and queues the engine's \<open>startSync\<close>.
\<close>

definition startSync :: "SyncEnvironment \<Rightarrow> Folder \<Rightarrow> Folder" where
  "startSync env f =
     (if isSyncRunning f then f
      else if \<not> env_reloadExcludes env
      then emit (SlotSyncFinishedQueued False)
             (slotSyncError ''Could not read system exclude file''
                (emit (FileLogStart (path f))
                   (emit EmitSyncStateChange
                      (setSyncState SyncPrepare
                         (f\<lparr>timeSinceLastSyncStart := env_now env\<rparr>)))))
      else emit EmitSyncStarted
             (emit EngineStartSyncQueued
                (emit (EngineSetIgnoreHiddenFiles (definition_ignoreHiddenFiles f))
                   (setLocalDiscoveryOptions env
                      (setSyncOptions env
                         (setDirtyNetworkLimits (env_config env)
                            (emit (FileLogStart (path f))
                               (emit EmitSyncStateChange
                                  (setSyncState SyncPrepare
                                     (f\<lparr>timeSinceLastSyncStart := env_now env\<rparr>))))))))))"

section \<open>The constructor Folder::Folder\<close>

text \<open>\<open>FolderDefinition\<close>, and what \<open>QFileInfo\<close> and the journal report for the local path.\<close>

record FolderDefinition =
  def_alias :: QString
  def_localPath :: QString
  def_paused :: bool
  def_ignoreHiddenFiles :: bool

record LocalPathInfo =
  fi_canonicalFilePath :: QString
  fi_isDir :: bool
  fi_isReadable :: bool
  fi_isWritable :: bool
  fi_fileExists :: bool
  fi_journalOpen :: bool

text \<open>
  \<open>Folder::checkLocalPath\<close>: the canonical path and the error message (empty when the
  path is usable).
\<close>

definition checkLocalPath :: "FolderDefinition \<Rightarrow> LocalPathInfo \<Rightarrow> QString \<times> QString" where
  "checkLocalPath d fi =
     (let canonical =
            (if fi_canonicalFilePath fi = [] then def_localPath d
             else if \<not> endsWith (fi_canonicalFilePath fi) CHR ''/''
             then fi_canonicalFilePath fi @ ''/''
             else fi_canonicalFilePath fi);
          error =
            (if fi_isDir fi \<and> fi_isReadable fi \<and> fi_isWritable fi
             then (if \<not> fi_journalOpen fi
                   then def_localPath d @ '' failed to open the database.'' else [])
             else (if \<not> fi_fileExists fi
                   then ''Local folder '' @ def_localPath d @ '' does not exist.''
                   else if \<not> fi_isDir fi
                   then def_localPath d @ '' should be a folder but is not.''
                   else if \<not> fi_isReadable fi
                   then def_localPath d @ '' is not readable.''
                   else if \<not> fi_isWritable fi
                   then def_localPath d @ '' is not writable.''
                   else []))
      in (canonical, error))"

text \<open>
  The constructor up to the creation of the engine. \<open>db\<close> is the journal found on
  disk, \<open>newEngine\<close> the freshly constructed engine. When \<open>checkLocalPath()\<close> fails
  the folder has no engine and only carries its result (\<open>Inl\<close>); otherwise the
  \<open>LocalSoftError\<close> entries are wiped ("those errors should not persist over
  sessions") and the engine is created. The rest of the constructor connects
  signals and starts the VFS plugin; of it the state keeps the new, empty tracker.
\<close>

definition newFolder ::
  "FolderDefinition \<Rightarrow> LocalPathInfo \<Rightarrow> int \<Rightarrow> SyncJournalDb \<Rightarrow> SyncEngine \<Rightarrow> Vfs
     \<Rightarrow> SyncResult + Folder" where
  "newFolder d fi now db newEngine v =
     (let result = \<lparr> status = (if def_paused d then Paused else NotYetStarted),
                      errorStrings = [], foundFilesNotSynced = False \<rparr>;
          (canonical, error) = checkLocalPath d fi
      in if error \<noteq> []
         then Inl ((appendErrorString error result)\<lparr>status := SetupError\<rparr>)
         else Inr \<lparr> definition_alias = def_alias d,
                    definition_paused = def_paused d,
                    definition_ignoreHiddenFiles = def_ignoreHiddenFiles d,
                    canonicalLocalPath = canonical,
                    syncResult = result,
                    lastSyncDuration = 0,
                    consecutiveFailingSyncs = 0,
                    consecutiveFollowUpSyncs = 0,
                    journal = wipeErrorBlacklistCategory LocalSoftError db,
                    engine = newEngine,
                    vfs = v,
                    vfsIsReady = False,
                    folderWatcher = None,
                    localDiscoveryTracker = \<lparr> localDiscoveryPaths = {} \<rparr>,
                    timeSinceLastSyncStart = now,
                    timeSinceLastSyncDone = now,
                    timeSinceLastFullLocalDiscovery = None,
                    scheduleSelfTimerActive = False,
                    effects = [EngineSetIgnoreHiddenFiles (def_ignoreHiddenFiles d)] \<rparr>)"

section \<open>Concrete states used to exercise the slots\<close>

definition emptyJournal :: SyncJournalDb where
  "emptyJournal =
     \<lparr> selectiveSyncList = (\<lambda>_. []), selectiveSyncListOk = (\<lambda>_. True),
       errorBlacklist = Map.empty, fileRecords = Map.empty \<rparr>"

definition idleEngine :: SyncEngine where
  "idleEngine =
     \<lparr> engine_isSyncRunning = False, engine_isAnotherSyncNeeded = NoFollowUpSync,
       engine_lastLocalDiscoveryStyle = FilesystemOnly,
       engine_localDiscoveryStyle = FilesystemOnly,
       engine_localDiscoveryPaths = {}, engine_wasFileTouched = (\<lambda>_. False) \<rparr>"

definition plainVfs :: Vfs where
  "plainVfs = \<lparr> isHydrating = False, pinState = (\<lambda>_. None) \<rparr>"

definition idleFolder :: Folder where
  "idleFolder =
     \<lparr> definition_alias = ''docs'', definition_paused = False, definition_ignoreHiddenFiles = True,
       canonicalLocalPath = ''/home/u/docs/'',
       syncResult = \<lparr> status = NotYetStarted, errorStrings = [], foundFilesNotSynced = False \<rparr>,
       lastSyncDuration = 0, consecutiveFailingSyncs = 0, consecutiveFollowUpSyncs = 0,
       journal = emptyJournal, engine = idleEngine, vfs = plainVfs, vfsIsReady = True,
       folderWatcher = Some \<lparr> isReliable = True \<rparr>,
       localDiscoveryTracker = \<lparr> localDiscoveryPaths = {} \<rparr>,
       timeSinceLastSyncStart = 0, timeSinceLastSyncDone = 0,
       timeSinceLastFullLocalDiscovery = None,
       scheduleSelfTimerActive = False, effects = [] \<rparr>"

definition runningFolder :: Folder where
  "runningFolder =
     idleFolder\<lparr> engine := idleEngine\<lparr>engine_isSyncRunning := True\<rparr>,
                 syncResult := \<lparr> status = SyncRunning, errorStrings = [], foundFilesNotSynced = False \<rparr> \<rparr>"

text \<open>A folder path normalized to end with a slash.\<close>

definition withTrailingSlash :: "QString \<Rightarrow> QString" where
  "withTrailingSlash newF = (if endsWith newF CHR ''/'' then newF else newF @ ''/'')"

definition undecidedFolder :: Folder where
  "undecidedFolder =
     idleFolder\<lparr> journal :=
        setSelectiveSyncList SelectiveSyncUndecidedList [''big/''] emptyJournal \<rparr>"

text \<open>A folder whose journal cannot be read (the database is not available).\<close>

definition unreadableFolder :: Folder where
  "unreadableFolder =
     idleFolder\<lparr> journal := emptyJournal\<lparr> selectiveSyncListOk := (\<lambda>_. False) \<rparr> \<rparr>"

definition sampleConfig :: ConfigFile where
  "sampleConfig =
     \<lparr> cfg_newBigFolderSizeLimit = (True, 500), cfg_confirmExternalStorage = True,
       cfg_moveToTrash = False, cfg_chunkSize = 10000000, cfg_minChunkSize = 1000000,
       cfg_maxChunkSize = 100000000, cfg_targetChunkUploadDuration = 60000,
       cfg_useDownloadLimit = 0, cfg_downloadLimit = 80,
       cfg_useUploadLimit = 1, cfg_uploadLimit = 10 \<rparr>"

text \<open>
  An environment ten minutes into the session, with the default interval of one hour;
  the environment sets no option and the chunk sizes are put in order around the
  initial one.
\<close>

definition sampleEnv :: SyncEnvironment where
  "sampleEnv =
     \<lparr> env_now = 600000, env_reloadExcludes = True,
       env_fullLocalDiscoveryInterval = 3600000, env_invalidTimerHasExpired = True,
       env_isHttp2Supported = False, env_config = sampleConfig,
       env_fillFromEnvironmentVariables = (\<lambda>opt. opt),
       env_verifyChunkSizes =
         (\<lambda>opt. opt\<lparr> minChunkSize := min (minChunkSize opt) (initialChunkSize opt),
                      maxChunkSize := max (maxChunkSize opt) (initialChunkSize opt) \<rparr>) \<rparr>"

text \<open>A folder whose last full local discovery started at clock 0.\<close>

definition discoveredFolder :: Folder where
  "discoveredFolder = idleFolder\<lparr> timeSinceLastFullLocalDiscovery := Some 0 \<rparr>"

text \<open>
  \<open>a\<close> is an ancestor directory of the relative path \<open>p\<close>: \<open>p\<close> is \<open>a\<close>, a slash,
  and a remainder.
\<close>

definition isAncestorDirectoryOf :: "QString \<Rightarrow> QString \<Rightarrow> bool" where
  "isAncestorDirectoryOf a p =
     (length a < length p \<and> take (length a) p = a \<and> p ! length a = CHR ''/'')"

text \<open>A non-macOS build; a path is a child of a directory when it starts with it.\<close>

definition linuxWatch :: WatchEnvironment where
  "linuxWatch =
     \<lparr> watch_isChildPathOf = (\<lambda>child parent. take (length parent) child = parent),
       watch_osMac = False,
       watch_fileChanged = (\<lambda>_ _ _. True),
       watch_exists = (\<lambda>_. True),
       watch_isDir = (\<lambda>_. False) \<rparr>"

text \<open>A folder whose engine has just written every file itself.\<close>

definition ownChangeFolder :: Folder where
  "ownChangeFolder = idleFolder\<lparr> engine := idleEngine\<lparr>engine_wasFileTouched := (\<lambda>_. True)\<rparr> \<rparr>"

definition softError :: SyncJournalErrorBlacklistRecord where
  "softError = \<lparr> errorCategory = LocalSoftError, retryCount = 1, ignoreDuration = 25,
                 errorString = ''file is locked'' \<rparr>"

definition normalError :: SyncJournalErrorBlacklistRecord where
  "normalError = \<lparr> errorCategory = Normal, retryCount = 2, ignoreDuration = 60,
                   errorString = ''server replied 500'' \<rparr>"

text \<open>A journal with soft errors on a file and on its parent, and a normal error above.\<close>

definition lockedJournal :: SyncJournalDb where
  "lockedJournal =
     emptyJournal\<lparr> errorBlacklist :=
        [''a/b/c.txt'' \<mapsto> softError, ''a/b'' \<mapsto> softError, ''a'' \<mapsto> normalError,
         ''x.txt'' \<mapsto> softError] \<rparr>"

definition lockedFolder :: Folder where
  "lockedFolder = idleFolder\<lparr> journal := lockedJournal \<rparr>"

definition usableDir :: LocalPathInfo where
  "usableDir =
     \<lparr> fi_canonicalFilePath = ''/home/u/docs'', fi_isDir = True, fi_isReadable = True,
       fi_isWritable = True, fi_fileExists = True, fi_journalOpen = True \<rparr>"

definition docsDefinition :: FolderDefinition where
  "docsDefinition =
     \<lparr> def_alias = ''docs'', def_localPath = ''/home/u/docs/'', def_paused = False,
       def_ignoreHiddenFiles = True \<rparr>"

text \<open>A folder whose journal knows \<open>a.txt\<close>, and a watcher that finds it unchanged.\<close>

definition syncedFolder :: Folder where
  "syncedFolder =
     idleFolder\<lparr> journal := emptyJournal\<lparr> fileRecords :=
        [''a.txt'' \<mapsto> \<lparr> rec_fileSize = 10, rec_modtime = 1700000000,
                         rec_type = ItemTypeFile \<rparr>] \<rparr> \<rparr>"

definition quietWatch :: WatchEnvironment where
  "quietWatch = linuxWatch\<lparr> watch_fileChanged := (\<lambda>_ _ _. False) \<rparr>"

definition sampleItem :: "ItemStatus \<Rightarrow> SyncInstruction \<Rightarrow> SyncFileItem" where
  "sampleItem st ins = \<lparr> item_file = ''a.txt'', item_status = st, item_instruction = ins \<rparr>"

text \<open>One-hot values for the instruction enumerators, and the bit each one sets.\<close>

fun instructionBit :: "SyncInstruction \<Rightarrow> nat" where
  "instructionBit CSYNC_INSTRUCTION_NONE = 0"
| "instructionBit CSYNC_INSTRUCTION_REMOVE = 1"
| "instructionBit CSYNC_INSTRUCTION_RENAME = 2"
| "instructionBit CSYNC_INSTRUCTION_NEW = 3"
| "instructionBit CSYNC_INSTRUCTION_CONFLICT = 4"
| "instructionBit CSYNC_INSTRUCTION_IGNORE = 5"
| "instructionBit CSYNC_INSTRUCTION_SYNC = 6"
| "instructionBit CSYNC_INSTRUCTION_UPDATE_VFS_METADATA = 7"
| "instructionBit CSYNC_INSTRUCTION_ERROR = 8"
| "instructionBit CSYNC_INSTRUCTION_TYPE_CHANGE = 9"
| "instructionBit CSYNC_INSTRUCTION_UPDATE_METADATA = 10"

definition instructionFlag :: "SyncInstruction \<Rightarrow> nat" where
  "instructionFlag i = 2 ^ instructionBit i"

text \<open>A fold that only remembers that an item failed.\<close>

definition noteItem :: "SyncFileItem \<Rightarrow> SyncResult \<Rightarrow> SyncResult" where
  "noteItem item r =
     (if item_status item = ItemSuccess then r else r\<lparr>foundFilesNotSynced := True\<rparr>)"

definition followUpFolder :: Folder where
  "followUpFolder =
     idleFolder\<lparr> engine := idleEngine\<lparr>engine_isAnotherSyncNeeded := ImmediateFollowUp\<rparr> \<rparr>"

definition whitelistedFolder :: Folder where
  "whitelistedFolder =
     idleFolder\<lparr> journal := setSelectiveSyncList SelectiveSyncWhiteList [''big/''] emptyJournal \<rparr>"

definition failedFolder :: Folder where
  "failedFolder =
     whitelistedFolder\<lparr> syncResult :=
        \<lparr> status = SyncRunning, errorStrings = [''disk full''], foundFilesNotSynced = False \<rparr> \<rparr>"

definition problemFolder :: Folder where
  "problemFolder =
     whitelistedFolder\<lparr> syncResult :=
        \<lparr> status = SyncRunning, errorStrings = [], foundFilesNotSynced = True \<rparr> \<rparr>"

definition pausedFolder :: Folder where
  "pausedFolder = whitelistedFolder\<lparr> definition_paused := True \<rparr>"


section \<open>Terminating a sync\<close>

text \<open>
  C8. When termination is requested while the engine is running, \<open>abort()\<close> is invoked
  on the engine (one \<open>EngineAbort\<close> call is appended) and the folder's sync state
  becomes \<open>SyncAbortRequested\<close>, everything else being untouched; when the engine is not
  running the request leaves the folder unchanged.
\<close>

theorem slotTerminateSync_abort:
  "(engine_isSyncRunning (engine f) \<longrightarrow>
      effects (slotTerminateSync f) = effects f @ [EngineAbort]
      \<and> status (syncResult (slotTerminateSync f)) = SyncAbortRequested
      \<and> slotTerminateSync f =
          f\<lparr>effects := effects f @ [EngineAbort],
            syncResult := (syncResult f)\<lparr>status := SyncAbortRequested\<rparr>\<rparr>)
   \<and> (\<not> engine_isSyncRunning (engine f) \<longrightarrow> slotTerminateSync f = f)"
  by (simp add: slotTerminateSync_def setSyncState_def emit_def)

theorem slotTerminateSync_abort_witness:
  "engine_isSyncRunning (engine runningFolder)
   \<and> effects (slotTerminateSync runningFolder) = [EngineAbort]
   \<and> status (syncResult (slotTerminateSync runningFolder)) = SyncAbortRequested
   \<and> \<not> engine_isSyncRunning (engine idleFolder)
   \<and> slotTerminateSync idleFolder = idleFolder"
  using slotTerminateSync_abort [of runningFolder] slotTerminateSync_abort [of idleFolder]
  by (simp add: runningFolder_def idleFolder_def idleEngine_def)

section \<open>Selectors of the building blocks\<close>

lemma emit_sel [simp]:
  "effects (emit e f) = effects f @ [e]"
  "syncResult (emit e f) = syncResult f"
  "journal (emit e f) = journal f"
  "engine (emit e f) = engine f"
  "vfs (emit e f) = vfs f"
  "folderWatcher (emit e f) = folderWatcher f"
  "localDiscoveryTracker (emit e f) = localDiscoveryTracker f"
  "canonicalLocalPath (emit e f) = canonicalLocalPath f"
  "definition_paused (emit e f) = definition_paused f"
  "definition_ignoreHiddenFiles (emit e f) = definition_ignoreHiddenFiles f"
  "consecutiveFollowUpSyncs (emit e f) = consecutiveFollowUpSyncs f"
  "scheduleSelfTimerActive (emit e f) = scheduleSelfTimerActive f"
  "timeSinceLastFullLocalDiscovery (emit e f) = timeSinceLastFullLocalDiscovery f"
  by (simp_all add: emit_def)

lemma setSyncState_sel [simp]:
  "effects (setSyncState st f) = effects f"
  "status (syncResult (setSyncState st f)) = st"
  "errorStrings (syncResult (setSyncState st f)) = errorStrings (syncResult f)"
  "journal (setSyncState st f) = journal f"
  "engine (setSyncState st f) = engine f"
  "vfs (setSyncState st f) = vfs f"
  "folderWatcher (setSyncState st f) = folderWatcher f"
  "localDiscoveryTracker (setSyncState st f) = localDiscoveryTracker f"
  "canonicalLocalPath (setSyncState st f) = canonicalLocalPath f"
  "definition_ignoreHiddenFiles (setSyncState st f) = definition_ignoreHiddenFiles f"
  "definition_paused (setSyncState st f) = definition_paused f"
  "consecutiveFollowUpSyncs (setSyncState st f) = consecutiveFollowUpSyncs f"
  "scheduleSelfTimerActive (setSyncState st f) = scheduleSelfTimerActive f"
  "timeSinceLastFullLocalDiscovery (setSyncState st f) = timeSinceLastFullLocalDiscovery f"
  by (simp_all add: setSyncState_def)

lemma setFinishedStatus_sel [simp]:
  "effects (setFinishedStatus b f) = effects f"
  "status (syncResult (setFinishedStatus b f)) =
     (if b then Error else if foundFilesNotSynced (syncResult f) then Problem
      else if definition_paused f then Paused else Success)"
  "journal (setFinishedStatus b f) = journal f"
  "engine (setFinishedStatus b f) = engine f"
  "consecutiveFollowUpSyncs (setFinishedStatus b f) = consecutiveFollowUpSyncs f"
  "scheduleSelfTimerActive (setFinishedStatus b f) = scheduleSelfTimerActive f"
  by (simp_all add: setFinishedStatus_def)

lemma countFailingSyncs_sel [simp]:
  "effects (countFailingSyncs f) = effects f"
  "syncResult (countFailingSyncs f) = syncResult f"
  "journal (countFailingSyncs f) = journal f"
  "engine (countFailingSyncs f) = engine f"
  "consecutiveFollowUpSyncs (countFailingSyncs f) = consecutiveFollowUpSyncs f"
  "scheduleSelfTimerActive (countFailingSyncs f) = scheduleSelfTimerActive f"
  by (simp_all add: countFailingSyncs_def)

lemma clearWhiteList_sel [simp]:
  "effects (clearWhiteList s f) = effects f"
  "syncResult (clearWhiteList s f) = syncResult f"
  "journal (clearWhiteList s f) =
     (if status (syncResult f) = Success \<and> s
      then setSelectiveSyncList SelectiveSyncWhiteList [] (journal f) else journal f)"
  "engine (clearWhiteList s f) = engine f"
  "consecutiveFollowUpSyncs (clearWhiteList s f) = consecutiveFollowUpSyncs f"
  "scheduleSelfTimerActive (clearWhiteList s f) = scheduleSelfTimerActive f"
  by (simp_all add: clearWhiteList_def)

lemma restartFullLocalDiscoveryTimer_sel [simp]:
  "effects (restartFullLocalDiscoveryTimer n s f) = effects f"
  "syncResult (restartFullLocalDiscoveryTimer n s f) = syncResult f"
  "journal (restartFullLocalDiscoveryTimer n s f) = journal f"
  "engine (restartFullLocalDiscoveryTimer n s f) = engine f"
  "consecutiveFollowUpSyncs (restartFullLocalDiscoveryTimer n s f) = consecutiveFollowUpSyncs f"
  "scheduleSelfTimerActive (restartFullLocalDiscoveryTimer n s f) = scheduleSelfTimerActive f"
  by (simp_all add: restartFullLocalDiscoveryTimer_def)

lemma countFollowUpSyncs_sel [simp]:
  "effects (countFollowUpSyncs a f) = effects f"
  "syncResult (countFollowUpSyncs a f) = syncResult f"
  "journal (countFollowUpSyncs a f) = journal f"
  "engine (countFollowUpSyncs a f) = engine f"
  "consecutiveFollowUpSyncs (countFollowUpSyncs a f) =
     (if a = ImmediateFollowUp then consecutiveFollowUpSyncs f + 1 else 0)"
  "scheduleSelfTimerActive (countFollowUpSyncs a f) = scheduleSelfTimerActive f"
  by (simp_all add: countFollowUpSyncs_def)

lemma forceFollowUpSync_sel [simp]:
  "effects (forceFollowUpSync a f) = effects f"
  "syncResult (forceFollowUpSync a f) = syncResult f"
  "journal (forceFollowUpSync a f) = journal f"
  "engine (forceFollowUpSync a f) = engine f"
  "consecutiveFollowUpSyncs (forceFollowUpSync a f) = consecutiveFollowUpSyncs f"
  "scheduleSelfTimerActive (forceFollowUpSync a f) =
     (scheduleSelfTimerActive f
      \<or> (a = ImmediateFollowUp \<and> sint (consecutiveFollowUpSyncs f) \<le> 3))"
  by (simp_all add: forceFollowUpSync_def scheduleThisFolderSoon_def)

section \<open>What a finished run leaves behind\<close>

lemma slotSyncFinished_status_eq:
  "status (syncResult (slotSyncFinished now success f)) =
     (if errorStrings (syncResult f) \<noteq> [] then Error
      else if foundFilesNotSynced (syncResult f) then Problem
      else if definition_paused f then Paused else Success)"
  by (simp add: slotSyncFinished_def Let_def)

lemma slotSyncFinished_journal_eq:
  "journal (slotSyncFinished now success f) =
     (if status (syncResult (slotSyncFinished now success f)) = Success \<and> success
      then setSelectiveSyncList SelectiveSyncWhiteList [] (journal f) else journal f)"
  by (simp add: slotSyncFinished_def Let_def)

lemma slotSyncFinished_effects_eq:
  "effects (slotSyncFinished now success f) =
     effects f @ [FileLogFinish, ShowSyncResultPopup, EmitSyncStateChange,
                  SlotEmitFinishedDelayedSingleShot]"
  by (simp add: slotSyncFinished_def Let_def)

lemma slotSyncFinished_counter_eq:
  "consecutiveFollowUpSyncs (slotSyncFinished now success f) =
     (if engine_isAnotherSyncNeeded (engine f) = ImmediateFollowUp
      then consecutiveFollowUpSyncs f + 1 else 0)"
  by (simp add: slotSyncFinished_def Let_def)

lemma slotSyncFinished_timer_eq:
  "scheduleSelfTimerActive (slotSyncFinished now success f) =
     (scheduleSelfTimerActive f
      \<or> (engine_isAnotherSyncNeeded (engine f) = ImmediateFollowUp
          \<and> sint (consecutiveFollowUpSyncs f + 1) \<le> 3))"
  by (simp add: slotSyncFinished_def Let_def)

lemma slotItemCompleted_effects:
  "effects (slotItemCompleted enc pci item f) = effects f
   \<or> effects (slotItemCompleted enc pci item f) =
       effects f @ [FileLogItem item, EmitItemCompleted (definition_alias f) item]"
  by (simp add: slotItemCompleted_def emit_def)

lemma slotItemCompleted_engine:
  "engine (slotItemCompleted enc pci item f) = engine f"
  by (simp add: slotItemCompleted_def emit_def)

text \<open>
  C3. After a run has finished the folder status is \<open>Error\<close> if and only if an error
  string was recorded; otherwise it is \<open>Problem\<close> when files were found not synced,
  otherwise \<open>Paused\<close> when the folder definition is paused, and \<open>Success\<close> in the
  remaining case. Item failures do not abort the run: completing an item, whatever
  its status, calls nothing but the file log and the item-completed signal and
  leaves the engine alone, and finishing calls no \<open>abort()\<close> either.
\<close>

theorem slotSyncFinished_status:
  "(status (syncResult (slotSyncFinished now success f)) = Error
      \<longleftrightarrow> errorStrings (syncResult f) \<noteq> [])
   \<and> (errorStrings (syncResult f) = [] \<and> foundFilesNotSynced (syncResult f)
        \<longrightarrow> status (syncResult (slotSyncFinished now success f)) = Problem)
   \<and> (errorStrings (syncResult f) = [] \<and> \<not> foundFilesNotSynced (syncResult f)
        \<and> definition_paused f
        \<longrightarrow> status (syncResult (slotSyncFinished now success f)) = Paused)
   \<and> (errorStrings (syncResult f) = [] \<and> \<not> foundFilesNotSynced (syncResult f)
        \<and> \<not> definition_paused f
        \<longrightarrow> status (syncResult (slotSyncFinished now success f)) = Success)
   \<and> EngineAbort \<notin> set (drop (length (effects f)) (effects (slotSyncFinished now success f)))
   \<and> EngineAbort \<notin> set (drop (length (effects f)) (effects (slotItemCompleted enc pci item f)))
   \<and> engine (slotItemCompleted enc pci item f) = engine f"
proof -
  have st: "status (syncResult (slotSyncFinished now success f)) =
     (if errorStrings (syncResult f) \<noteq> [] then Error
      else if foundFilesNotSynced (syncResult f) then Problem
      else if definition_paused f then Paused else Success)"
    by (rule slotSyncFinished_status_eq)
  have fin: "EngineAbort \<notin> set (drop (length (effects f)) (effects (slotSyncFinished now success f)))"
    by (simp add: slotSyncFinished_effects_eq)
  have item: "EngineAbort \<notin> set (drop (length (effects f)) (effects (slotItemCompleted enc pci item f)))"
    using slotItemCompleted_effects [of enc pci item f] by auto
  from st fin item slotItemCompleted_engine [of enc pci item f] show ?thesis
    by simp
qed

theorem slotSyncFinished_status_witness:
  "status (syncResult (slotSyncFinished 5 True failedFolder)) = Error
   \<and> errorStrings (syncResult failedFolder) \<noteq> []
   \<and> errorStrings (syncResult problemFolder) = []
   \<and> foundFilesNotSynced (syncResult problemFolder)
   \<and> status (syncResult (slotSyncFinished 5 True problemFolder)) = Problem
   \<and> definition_paused pausedFolder
   \<and> status (syncResult (slotSyncFinished 5 True pausedFolder)) = Paused
   \<and> \<not> definition_paused idleFolder
   \<and> status (syncResult (slotSyncFinished 5 True idleFolder)) = Success"
  using slotSyncFinished_status [of 5 True failedFolder instructionFlag noteItem
          "sampleItem NormalError CSYNC_INSTRUCTION_NEW"]
        slotSyncFinished_status [of 5 True problemFolder instructionFlag noteItem
          "sampleItem NormalError CSYNC_INSTRUCTION_NEW"]
        slotSyncFinished_status [of 5 True pausedFolder instructionFlag noteItem
          "sampleItem NormalError CSYNC_INSTRUCTION_NEW"]
        slotSyncFinished_status [of 5 True idleFolder instructionFlag noteItem
          "sampleItem NormalError CSYNC_INSTRUCTION_NEW"]
  by (simp add: failedFolder_def problemFolder_def pausedFolder_def whitelistedFolder_def
        idleFolder_def)

text \<open>
  C9. After a run whose final status is \<open>Success\<close> and for which the engine reported
  success, the selective-sync whitelist of the journal is the empty list (and nothing
  else of the journal changed); a run ending in \<open>Problem\<close>, \<open>Error\<close> or \<open>Paused\<close>
  leaves the journal, hence the whitelist, untouched.
\<close>

theorem slotSyncFinished_whitelist:
  "(status (syncResult (slotSyncFinished now success f)) = Success \<and> success
      \<longrightarrow> selectiveSyncList (journal (slotSyncFinished now success f)) SelectiveSyncWhiteList = []
          \<and> journal (slotSyncFinished now success f)
              = setSelectiveSyncList SelectiveSyncWhiteList [] (journal f))
   \<and> (status (syncResult (slotSyncFinished now success f)) = Problem
       \<or> status (syncResult (slotSyncFinished now success f)) = Error
       \<or> status (syncResult (slotSyncFinished now success f)) = Paused
      \<longrightarrow> journal (slotSyncFinished now success f) = journal f)"
proof -
  have j: "journal (slotSyncFinished now success f) =
     (if status (syncResult (slotSyncFinished now success f)) = Success \<and> success
      then setSelectiveSyncList SelectiveSyncWhiteList [] (journal f) else journal f)"
    by (rule slotSyncFinished_journal_eq)
  have e: "selectiveSyncList (setSelectiveSyncList SelectiveSyncWhiteList [] (journal f))
             SelectiveSyncWhiteList = []"
    by (simp add: setSelectiveSyncList_def)
  show ?thesis
  proof (cases "status (syncResult (slotSyncFinished now success f)) = Success \<and> success")
    case True
    with j e show ?thesis by simp
  next
    case False
    with j have "journal (slotSyncFinished now success f) = journal f" by simp
    with False show ?thesis by auto
  qed
qed

theorem slotSyncFinished_whitelist_witness:
  "status (syncResult (slotSyncFinished 5 True whitelistedFolder)) = Success
   \<and> selectiveSyncList (journal whitelistedFolder) SelectiveSyncWhiteList = [''big/'']
   \<and> selectiveSyncList (journal (slotSyncFinished 5 True whitelistedFolder))
        SelectiveSyncWhiteList = []
   \<and> status (syncResult (slotSyncFinished 5 True problemFolder)) = Problem
   \<and> selectiveSyncList (journal (slotSyncFinished 5 True problemFolder))
        SelectiveSyncWhiteList = [''big/'']
   \<and> status (syncResult (slotSyncFinished 5 True failedFolder)) = Error
   \<and> journal (slotSyncFinished 5 True failedFolder) = journal failedFolder
   \<and> status (syncResult (slotSyncFinished 5 True pausedFolder)) = Paused
   \<and> journal (slotSyncFinished 5 True pausedFolder) = journal pausedFolder"
  using slotSyncFinished_whitelist [of 5 True whitelistedFolder]
        slotSyncFinished_whitelist [of 5 True problemFolder]
        slotSyncFinished_whitelist [of 5 True failedFolder]
        slotSyncFinished_whitelist [of 5 True pausedFolder]
  by (simp add: slotSyncFinished_status_eq failedFolder_def problemFolder_def pausedFolder_def
        whitelistedFolder_def idleFolder_def setSelectiveSyncList_def emptyJournal_def)

section \<open>Follow-up syncs\<close>

lemma sint_counter: "k < 2 ^ 31 \<Longrightarrow> sint (word_of_nat k :: 32 word) = int k"
  by (simp add: signed_of_nat signed_take_bit_int_eq_self)

lemma upt_shift: "map (\<lambda>i. P (Suc k + i)) [0..<n] = map (\<lambda>i. P (k + i)) [1..<Suc n]"
  by (simp add: map_Suc_upt [symmetric] del: upt_Suc)

lemma finishedRuns_counting:
  "consecutiveFollowUpSyncs f = word_of_nat k
   \<Longrightarrow> \<forall>r\<in>set runs. snd (snd r) = ImmediateFollowUp
   \<Longrightarrow> k + length runs < 2 ^ 31
   \<Longrightarrow> finishedRuns runs f = map (\<lambda>i. k + i < 3) [0..<length runs]"
proof (induction runs arbitrary: f k)
  case Nil
  then show ?case by simp
next
  case (Cons r runs)
  obtain now success another where r: "r = (now, success, another)"
    by (cases r) auto
  from Cons.prems r have a: "another = ImmediateFollowUp" by simp
  let ?g = "f\<lparr>engine := (engine f)\<lparr>engine_isAnotherSyncNeeded := another\<rparr>,
              scheduleSelfTimerActive := False\<rparr>"
  let ?f' = "slotSyncFinished now success ?g"
  have c: "consecutiveFollowUpSyncs ?f' = word_of_nat (Suc k)"
    using Cons.prems(1) a by (simp add: slotSyncFinished_counter_eq)
  have k: "Suc k < 2 ^ 31" using Cons.prems(3) by simp
  have h: "scheduleSelfTimerActive ?f' = (k + 0 < 3)"
    using a Cons.prems(1) sint_counter [OF k]
    by (auto simp add: slotSyncFinished_timer_eq ac_simps)
  have t: "finishedRuns runs ?f' = map (\<lambda>i. Suc k + i < 3) [0..<length runs]"
    using Cons.IH [OF c] Cons.prems by simp
  have "finishedRuns (r # runs) f = scheduleSelfTimerActive ?f' # finishedRuns runs ?f'"
    by (simp add: r Let_def)
  also have "\<dots> = (k + 0 < 3) # map (\<lambda>i. k + i < 3) [1..<Suc (length runs)]"
    using h t upt_shift [of "\<lambda>j. j < 3" k "length runs"] by simp
  also have "\<dots> = map (\<lambda>i. k + i < 3) [0..<length (r # runs)]"
    by (simp add: upt_conv_Cons del: upt_Suc)
  finally show ?case .
qed

lemma count_below_three: "length (filter id (map (\<lambda>k. k < 3) [0..<n])) = min n 3"
proof -
  have "filter id (map (\<lambda>k. k < 3) [0..<n])
          = map (\<lambda>k. k < 3) (filter (\<lambda>k. k < (3::nat)) [0..<n])"
    by (simp add: filter_map comp_def)
  moreover have "length (filter (\<lambda>k. k < (3::nat)) [0..<n]) = min n 3"
    by (induction n) auto
  ultimately show ?thesis by simp
qed

text \<open>
  C2. When a finished run requests an immediate follow-up, the counter of consecutive
  follow-ups is incremented and the folder is rescheduled (the single-shot timer is
  armed) only if the incremented counter is at most 3; a finished run that requests
  no immediate follow-up resets the counter to 0 and arms nothing. Hence in a chain
  of consecutive runs that all request a follow-up, starting from counter 0,
  exactly the first three are followed up: no more than 3 consecutive follow-ups are
  triggered. The counter is a C++ \<open>int\<close>; the chain is shorter than \<open>2^31\<close> runs.
\<close>

theorem followUp_capped_at_three:
  "(engine_isAnotherSyncNeeded (engine f) = ImmediateFollowUp \<longrightarrow>
      consecutiveFollowUpSyncs (slotSyncFinished now success f) = consecutiveFollowUpSyncs f + 1
      \<and> (scheduleSelfTimerActive (slotSyncFinished now success f)
            \<longleftrightarrow> scheduleSelfTimerActive f
                \<or> sint (consecutiveFollowUpSyncs (slotSyncFinished now success f)) \<le> 3))
   \<and> (engine_isAnotherSyncNeeded (engine f) \<noteq> ImmediateFollowUp \<longrightarrow>
      consecutiveFollowUpSyncs (slotSyncFinished now success f) = 0
      \<and> scheduleSelfTimerActive (slotSyncFinished now success f) = scheduleSelfTimerActive f)
   \<and> (consecutiveFollowUpSyncs f = 0
       \<and> (\<forall>r\<in>set runs. snd (snd r) = ImmediateFollowUp)
       \<and> length runs < 2 ^ 31 \<longrightarrow>
      finishedRuns runs f = map (\<lambda>k. k < 3) [0..<length runs]
      \<and> length (filter id (finishedRuns runs f)) = min (length runs) 3
      \<and> length (filter id (finishedRuns runs f)) \<le> 3)"
proof (intro conjI impI)
  assume a: "engine_isAnotherSyncNeeded (engine f) = ImmediateFollowUp"
  then show c: "consecutiveFollowUpSyncs (slotSyncFinished now success f)
                  = consecutiveFollowUpSyncs f + 1"
    by (simp add: slotSyncFinished_counter_eq)
  from a show "scheduleSelfTimerActive (slotSyncFinished now success f)
                 \<longleftrightarrow> scheduleSelfTimerActive f
                     \<or> sint (consecutiveFollowUpSyncs (slotSyncFinished now success f)) \<le> 3"
    by (simp add: c slotSyncFinished_timer_eq)
next
  assume "engine_isAnotherSyncNeeded (engine f) \<noteq> ImmediateFollowUp"
  then show "consecutiveFollowUpSyncs (slotSyncFinished now success f) = 0"
    and "scheduleSelfTimerActive (slotSyncFinished now success f) = scheduleSelfTimerActive f"
    by (simp_all add: slotSyncFinished_counter_eq slotSyncFinished_timer_eq)
next
  assume h: "consecutiveFollowUpSyncs f = 0
       \<and> (\<forall>r\<in>set runs. snd (snd r) = ImmediateFollowUp)
       \<and> length runs < 2 ^ 31"
  then have "finishedRuns runs f = map (\<lambda>i. 0 + i < 3) [0..<length runs]"
    by (intro finishedRuns_counting) simp_all
  then show e: "finishedRuns runs f = map (\<lambda>k. k < 3) [0..<length runs]"
    by simp
  show "length (filter id (finishedRuns runs f)) = min (length runs) 3"
    by (simp only: e count_below_three)
  then show "length (filter id (finishedRuns runs f)) \<le> 3"
    by simp
qed

theorem followUp_capped_at_three_witness:
  "engine_isAnotherSyncNeeded (engine followUpFolder) = ImmediateFollowUp
   \<and> consecutiveFollowUpSyncs (slotSyncFinished 5 True followUpFolder) = 1
   \<and> scheduleSelfTimerActive (slotSyncFinished 5 True followUpFolder)
   \<and> engine_isAnotherSyncNeeded (engine idleFolder) \<noteq> ImmediateFollowUp
   \<and> consecutiveFollowUpSyncs (slotSyncFinished 5 True idleFolder) = 0
   \<and> \<not> scheduleSelfTimerActive (slotSyncFinished 5 True idleFolder)
   \<and> finishedRuns [(1, True, ImmediateFollowUp), (2, True, ImmediateFollowUp),
                    (3, True, ImmediateFollowUp), (4, True, ImmediateFollowUp),
                    (5, True, ImmediateFollowUp)] idleFolder
        = [True, True, True, False, False]"
  using followUp_capped_at_three [of followUpFolder 5 True "[]"]
        followUp_capped_at_three [of idleFolder 5 True
          "[(1, True, ImmediateFollowUp), (2, True, ImmediateFollowUp),
            (3, True, ImmediateFollowUp), (4, True, ImmediateFollowUp),
            (5, True, ImmediateFollowUp)]"]
  by (simp add: followUpFolder_def idleFolder_def idleEngine_def upt_conv_Cons del: upt_Suc)

section \<open>Completed items\<close>

lemma flag_test:
  "((2::nat) ^ a AND (2 ^ b OR 2 ^ c)) \<noteq> 0 \<longleftrightarrow> a = b \<or> a = c"
  by (auto simp add: bit_eq_iff bit_simps)

lemma inj_instructionBit: "inj instructionBit"
proof (rule injI)
  fix x y
  assume "instructionBit x = instructionBit y"
  then show "x = y"
    by (cases x; cases y; simp)
qed

text \<open>
  C10. A completed item whose status is success and whose instruction is
  \<open>CSYNC_INSTRUCTION_NONE\<close> or \<open>CSYNC_INSTRUCTION_UPDATE_METADATA\<close> is dropped: the
  folder, with its sync result and its effects (file log, item-completed signal), is
  unchanged. Every other completed item is folded into the sync result, written to
  the file log and published by the item-completed signal, in this order. The
  instruction values are flags: each enumerator sets one bit of its own.
\<close>

theorem slotItemCompleted_filter:
  assumes "inj bit_of" and "\<forall>i. enc i = 2 ^ bit_of i"
  shows "slotItemCompleted enc processCompletedItem item f =
     (if item_status item = ItemSuccess
         \<and> (item_instruction item = CSYNC_INSTRUCTION_NONE
              \<or> item_instruction item = CSYNC_INSTRUCTION_UPDATE_METADATA)
      then f
      else f\<lparr>syncResult := processCompletedItem item (syncResult f),
             effects := effects f @
               [FileLogItem item, EmitItemCompleted (definition_alias f) item]\<rparr>)"
proof -
  have "(enc (item_instruction item)
           AND (enc CSYNC_INSTRUCTION_NONE OR enc CSYNC_INSTRUCTION_UPDATE_METADATA)) \<noteq> 0
        \<longleftrightarrow> (item_instruction item = CSYNC_INSTRUCTION_NONE
              \<or> item_instruction item = CSYNC_INSTRUCTION_UPDATE_METADATA)"
    using assms
      flag_test [of "bit_of (item_instruction item)" "bit_of CSYNC_INSTRUCTION_NONE"
        "bit_of CSYNC_INSTRUCTION_UPDATE_METADATA"]
    by (simp add: inj_eq del: neq0_conv)
  then show ?thesis
    by (auto simp add: slotItemCompleted_def emit_def)
qed

theorem slotItemCompleted_filter_witness:
  "inj instructionBit
   \<and> slotItemCompleted instructionFlag noteItem
        (sampleItem ItemSuccess CSYNC_INSTRUCTION_NONE) idleFolder = idleFolder
   \<and> slotItemCompleted instructionFlag noteItem
        (sampleItem ItemSuccess CSYNC_INSTRUCTION_UPDATE_METADATA) idleFolder = idleFolder
   \<and> effects (slotItemCompleted instructionFlag noteItem
        (sampleItem ItemSuccess CSYNC_INSTRUCTION_NEW) idleFolder)
       = [FileLogItem (sampleItem ItemSuccess CSYNC_INSTRUCTION_NEW),
          EmitItemCompleted ''docs'' (sampleItem ItemSuccess CSYNC_INSTRUCTION_NEW)]
   \<and> foundFilesNotSynced (syncResult (slotItemCompleted instructionFlag noteItem
        (sampleItem NormalError CSYNC_INSTRUCTION_NONE) idleFolder))"
  using slotItemCompleted_filter [of instructionBit instructionFlag noteItem
          "sampleItem ItemSuccess CSYNC_INSTRUCTION_NONE" idleFolder]
        slotItemCompleted_filter [of instructionBit instructionFlag noteItem
          "sampleItem ItemSuccess CSYNC_INSTRUCTION_UPDATE_METADATA" idleFolder]
        slotItemCompleted_filter [of instructionBit instructionFlag noteItem
          "sampleItem ItemSuccess CSYNC_INSTRUCTION_NEW" idleFolder]
        slotItemCompleted_filter [of instructionBit instructionFlag noteItem
          "sampleItem NormalError CSYNC_INSTRUCTION_NONE" idleFolder]
        inj_instructionBit
  by (simp add: instructionFlag_def sampleItem_def noteItem_def idleFolder_def)

section \<open>New big folders\<close>

lemma endsWith_withTrailingSlash: "endsWith (withTrailingSlash newF) CHR ''/''"
  by (simp add: withTrailingSlash_def endsWith_def)

lemma bigFolder_readable_list:
  assumes "selectiveSyncListOk (journal f) SelectiveSyncUndecidedList"
  shows "selectiveSyncList (journal (slotNewBigFolderDiscovered limitMB newF isExternal f))
           SelectiveSyncUndecidedList
         = (if withTrailingSlash newF
                 \<in> set (selectiveSyncList (journal f) SelectiveSyncUndecidedList)
            then selectiveSyncList (journal f) SelectiveSyncUndecidedList
            else selectiveSyncList (journal f) SelectiveSyncUndecidedList
                   @ [withTrailingSlash newF])"
  using assms
  by (simp add: slotNewBigFolderDiscovered_def Let_def getSelectiveSyncList_def
        setSelectiveSyncList_def withTrailingSlash_def split: prod.splits)

lemma bigFolder_readable_effects:
  assumes "selectiveSyncListOk (journal f) SelectiveSyncUndecidedList"
  shows "effects (slotNewBigFolderDiscovered limitMB newF isExternal f)
         = effects f
           @ (if withTrailingSlash newF
                   \<in> set (selectiveSyncList (journal f) SelectiveSyncUndecidedList)
              then [] else [EmitNewBigFolderDiscovered (withTrailingSlash newF)])
           @ [ShowOptionalTrayMessage
                (if isExternal then ExternalStorageFolderMessage
                 else NewBigFolderMessage limitMB newF)]"
  using assms
  by (simp add: slotNewBigFolderDiscovered_def Let_def getSelectiveSyncList_def
        setSelectiveSyncList_def withTrailingSlash_def split: prod.splits)

lemma bigFolder_unreadable:
  assumes "\<not> selectiveSyncListOk (journal f) SelectiveSyncUndecidedList"
  shows "selectiveSyncList (journal (slotNewBigFolderDiscovered limitMB newF isExternal f))
           SelectiveSyncUndecidedList
         = selectiveSyncList (journal f) SelectiveSyncUndecidedList"
    and "effects (slotNewBigFolderDiscovered limitMB newF isExternal f) = effects f"
  using assms
  by (simp_all add: slotNewBigFolderDiscovered_def Let_def getSelectiveSyncList_def
        setSelectiveSyncList_def split: prod.splits)

text \<open>
  C4, as stated, fails: when the undecided list cannot be read from the journal, a
  newly discovered big folder that is not in the list is neither added to it nor
  announced by a new-big-folder event.
\<close>

theorem bigFolder_unreadable_counterexample:
  "\<not> (withTrailingSlash ''big''
          \<notin> set (selectiveSyncList (journal unreadableFolder) SelectiveSyncUndecidedList)
        \<longrightarrow> withTrailingSlash ''big''
              \<in> set (selectiveSyncList
                       (journal (slotNewBigFolderDiscovered 500 ''big'' False unreadableFolder))
                       SelectiveSyncUndecidedList)
            \<and> EmitNewBigFolderDiscovered (withTrailingSlash ''big'')
              \<in> set (effects (slotNewBigFolderDiscovered 500 ''big'' False unreadableFolder)))"
proof -
  have u: "\<not> selectiveSyncListOk (journal unreadableFolder) SelectiveSyncUndecidedList"
    by (simp add: unreadableFolder_def)
  have "selectiveSyncList (journal unreadableFolder) SelectiveSyncUndecidedList = []"
    by (simp add: unreadableFolder_def emptyJournal_def)
  moreover have "effects unreadableFolder = []"
    by (simp add: unreadableFolder_def idleFolder_def)
  ultimately show ?thesis
    using bigFolder_unreadable [OF u, of 500 "''big''" False] by simp
qed

text \<open>
  C4, amended. For every newly discovered big folder for which the undecided list can
  be read from the journal: the path, normalized to end with a slash, is appended to
  the undecided list if it is not already there, and exactly in that case a
  new-big-folder event is raised (before the tray message); a folder already in the
  list leaves the list as it is and raises no event. When the undecided list cannot
  be read, the list is left alone and nothing is raised.
\<close>

theorem bigFolder_undecided:
  "endsWith (withTrailingSlash newF) CHR ''/''
   \<and> (selectiveSyncListOk (journal f) SelectiveSyncUndecidedList \<longrightarrow>
        (withTrailingSlash newF
            \<notin> set (selectiveSyncList (journal f) SelectiveSyncUndecidedList) \<longrightarrow>
           selectiveSyncList (journal (slotNewBigFolderDiscovered limitMB newF isExternal f))
               SelectiveSyncUndecidedList
             = selectiveSyncList (journal f) SelectiveSyncUndecidedList
                 @ [withTrailingSlash newF]
           \<and> effects (slotNewBigFolderDiscovered limitMB newF isExternal f)
             = effects f @ [EmitNewBigFolderDiscovered (withTrailingSlash newF),
                  ShowOptionalTrayMessage
                    (if isExternal then ExternalStorageFolderMessage
                     else NewBigFolderMessage limitMB newF)])
        \<and> (withTrailingSlash newF
            \<in> set (selectiveSyncList (journal f) SelectiveSyncUndecidedList) \<longrightarrow>
           selectiveSyncList (journal (slotNewBigFolderDiscovered limitMB newF isExternal f))
               SelectiveSyncUndecidedList
             = selectiveSyncList (journal f) SelectiveSyncUndecidedList
           \<and> effects (slotNewBigFolderDiscovered limitMB newF isExternal f)
             = effects f @ [ShowOptionalTrayMessage
                    (if isExternal then ExternalStorageFolderMessage
                     else NewBigFolderMessage limitMB newF)]))
   \<and> (\<not> selectiveSyncListOk (journal f) SelectiveSyncUndecidedList \<longrightarrow>
        selectiveSyncList (journal (slotNewBigFolderDiscovered limitMB newF isExternal f))
            SelectiveSyncUndecidedList
          = selectiveSyncList (journal f) SelectiveSyncUndecidedList
        \<and> effects (slotNewBigFolderDiscovered limitMB newF isExternal f) = effects f)"
proof (cases "selectiveSyncListOk (journal f) SelectiveSyncUndecidedList")
  case True
  from bigFolder_readable_list [OF True, of limitMB newF isExternal]
       bigFolder_readable_effects [OF True, of limitMB newF isExternal]
       True endsWith_withTrailingSlash [of newF]
  show ?thesis by simp
next
  case False
  from bigFolder_unreadable [OF False, of limitMB newF isExternal]
       False endsWith_withTrailingSlash [of newF]
  show ?thesis by simp
qed

theorem bigFolder_undecided_witness:
  "selectiveSyncListOk (journal idleFolder) SelectiveSyncUndecidedList
   \<and> selectiveSyncList (journal (slotNewBigFolderDiscovered 500 ''big'' False idleFolder))
        SelectiveSyncUndecidedList = [''big/'']
   \<and> effects (slotNewBigFolderDiscovered 500 ''big'' False idleFolder)
       = [EmitNewBigFolderDiscovered ''big/'',
          ShowOptionalTrayMessage (NewBigFolderMessage 500 ''big'')]
   \<and> selectiveSyncListOk (journal undecidedFolder) SelectiveSyncUndecidedList
   \<and> selectiveSyncList (journal (slotNewBigFolderDiscovered 500 ''big/'' True undecidedFolder))
        SelectiveSyncUndecidedList = [''big/'']
   \<and> effects (slotNewBigFolderDiscovered 500 ''big/'' True undecidedFolder)
       = [ShowOptionalTrayMessage ExternalStorageFolderMessage]
   \<and> \<not> selectiveSyncListOk (journal unreadableFolder) SelectiveSyncUndecidedList
   \<and> effects (slotNewBigFolderDiscovered 500 ''big'' False unreadableFolder) = []"
  using bigFolder_undecided [of "''big''" idleFolder 500 False]
        bigFolder_undecided [of "''big/''" undecidedFolder 500 True]
        bigFolder_undecided [of "''big''" unreadableFolder 500 False]
  by (simp add: withTrailingSlash_def endsWith_def idleFolder_def undecidedFolder_def
        unreadableFolder_def emptyJournal_def setSelectiveSyncList_def)

section \<open>Starting a sync\<close>

lemma setDirtyNetworkLimits_sel [simp]:
  "engine (setDirtyNetworkLimits cfg f) = engine f"
  "folderWatcher (setDirtyNetworkLimits cfg f) = folderWatcher f"
  "localDiscoveryTracker (setDirtyNetworkLimits cfg f) = localDiscoveryTracker f"
  "timeSinceLastFullLocalDiscovery (setDirtyNetworkLimits cfg f)
     = timeSinceLastFullLocalDiscovery f"
  by (simp_all add: setDirtyNetworkLimits_def Let_def)

lemma setDirtyNetworkLimits_effects:
  "\<exists>u d. effects (setDirtyNetworkLimits cfg f) = effects f @ [EngineSetNetworkLimits u d]"
  by (simp add: setDirtyNetworkLimits_def Let_def)

lemma setSyncOptions_sel [simp]:
  "engine (setSyncOptions env f) = engine f"
  "folderWatcher (setSyncOptions env f) = folderWatcher f"
  "localDiscoveryTracker (setSyncOptions env f) = localDiscoveryTracker f"
  "timeSinceLastFullLocalDiscovery (setSyncOptions env f) = timeSinceLastFullLocalDiscovery f"
  by (simp_all add: setSyncOptions_def Let_def)

lemma setSyncOptions_effects:
  "\<exists>opt. effects (setSyncOptions env f) = effects f @ [EngineSetSyncOptions opt]"
  by (simp add: setSyncOptions_def Let_def)

lemma slotSyncError_sel [simp]:
  "engine (slotSyncError m f) = engine f"
  "effects (slotSyncError m f) = effects f @ [EmitSyncError (definition_alias f) m]"
  by (simp_all add: slotSyncError_def)

lemma setLocalDiscoveryOptions_style:
  "engine_localDiscoveryStyle (engine (setLocalDiscoveryOptions env f)) =
     (if (\<exists>w. folderWatcher f = Some w \<and> isReliable w)
         \<and> isValid (timeSinceLastFullLocalDiscovery f)
         \<and> (env_fullLocalDiscoveryInterval env < 0
             \<or> \<not> hasExpired env (timeSinceLastFullLocalDiscovery f)
                    (env_fullLocalDiscoveryInterval env))
      then DatabaseAndFilesystem else FilesystemOnly)"
  by (auto simp add: setLocalDiscoveryOptions_def Let_def split: option.splits)

lemma setLocalDiscoveryOptions_effects:
  "effects (setLocalDiscoveryOptions env f) = effects f @ [TrackerStartSyncPartialDiscovery]
   \<or> effects (setLocalDiscoveryOptions env f) = effects f @ [TrackerStartSyncFullDiscovery]"
  by (simp add: setLocalDiscoveryOptions_def Let_def)

lemma startSync_started_style:
  assumes "\<not> isSyncRunning f" and "env_reloadExcludes env"
  shows "engine_localDiscoveryStyle (engine (startSync env f)) =
     (if (\<exists>w. folderWatcher f = Some w \<and> isReliable w)
         \<and> isValid (timeSinceLastFullLocalDiscovery f)
         \<and> (env_fullLocalDiscoveryInterval env < 0
             \<or> \<not> hasExpired env (timeSinceLastFullLocalDiscovery f)
                    (env_fullLocalDiscoveryInterval env))
      then DatabaseAndFilesystem else FilesystemOnly)"
  using assms by (simp add: startSync_def setLocalDiscoveryOptions_style)

lemma startSync_started_effects:
  assumes "\<not> isSyncRunning f" and "env_reloadExcludes env"
  shows "\<exists>es. effects (startSync env f)
               = effects f @ es @ [EngineStartSyncQueued, EmitSyncStarted]"
proof -
  let ?p = "emit (FileLogStart (path f)) (emit EmitSyncStateChange
              (setSyncState SyncPrepare (f\<lparr>timeSinceLastSyncStart := env_now env\<rparr>)))"
  let ?g = "setSyncOptions env (setDirtyNetworkLimits (env_config env) ?p)"
  obtain u d where "effects (setDirtyNetworkLimits (env_config env) ?p)
        = effects f @ [EmitSyncStateChange, FileLogStart (path f), EngineSetNetworkLimits u d]"
    using setDirtyNetworkLimits_effects [of "env_config env" ?p] by auto
  moreover obtain opt where "effects ?g
        = effects (setDirtyNetworkLimits (env_config env) ?p) @ [EngineSetSyncOptions opt]"
    using setSyncOptions_effects by blast
  ultimately have "\<exists>es. effects ?g = effects f @ es" by simp
  then obtain es where g: "effects ?g = effects f @ es" by blast
  have "\<exists>t. effects (setLocalDiscoveryOptions env ?g) = effects ?g @ [t]"
    using setLocalDiscoveryOptions_effects [of env ?g] by auto
  then obtain t where "effects (setLocalDiscoveryOptions env ?g) = effects f @ es @ [t]"
    using g by auto
  then have "effects (startSync env f)
      = effects f @ (es @ [t, EngineSetIgnoreHiddenFiles (definition_ignoreHiddenFiles f)])
          @ [EngineStartSyncQueued, EmitSyncStarted]"
    using assms by (simp add: startSync_def)
  then show ?thesis by blast
qed

lemma startSync_not_started:
  assumes "isSyncRunning f \<or> \<not> env_reloadExcludes env"
  shows "engine (startSync env f) = engine f"
    and "EngineStartSyncQueued
           \<notin> set (drop (length (effects f)) (effects (startSync env f)))"
  using assms by (auto simp add: startSync_def)

lemma hasExpired_elapsed:
  assumes "t0 \<le> env_now env" and "env_now env - t0 < 2 ^ 64"
    and "0 \<le> timeout" and "timeout < 2 ^ 64"
  shows "hasExpired env (Some t0) timeout \<longleftrightarrow> timeout < env_now env - t0"
  using assms by (simp add: hasExpired_def quint64_def)

text \<open>
  C1. When \<open>startSync\<close> starts a run (no sync is running and the excludes could be
  read: the engine's \<open>startSync\<close> is queued), the engine is put into
  \<open>DatabaseAndFilesystem\<close> discovery exactly when the folder watcher exists and is
  reliable, a full local discovery has happened before (the timer is valid), and the
  configured interval is negative or has not expired since the last full discovery;
  in every other case the run uses \<open>FilesystemOnly\<close>. For a timer started at \<open>t0\<close>
  and a non-negative interval, expired means that more than the interval has
  elapsed since \<open>t0\<close>. When no run is started the engine is left as it was.
\<close>

theorem startSync_discovery_style:
  "(\<not> isSyncRunning f \<and> env_reloadExcludes env \<longrightarrow>
      (\<exists>es. effects (startSync env f)
               = effects f @ es @ [EngineStartSyncQueued, EmitSyncStarted])
      \<and> engine_localDiscoveryStyle (engine (startSync env f)) =
          (if (\<exists>w. folderWatcher f = Some w \<and> isReliable w)
              \<and> isValid (timeSinceLastFullLocalDiscovery f)
              \<and> (env_fullLocalDiscoveryInterval env < 0
                  \<or> \<not> hasExpired env (timeSinceLastFullLocalDiscovery f)
                         (env_fullLocalDiscoveryInterval env))
           then DatabaseAndFilesystem else FilesystemOnly))
   \<and> (t0 \<le> env_now env \<and> env_now env - t0 < 2 ^ 64
       \<and> 0 \<le> env_fullLocalDiscoveryInterval env \<and> env_fullLocalDiscoveryInterval env < 2 ^ 64
       \<longrightarrow> (hasExpired env (Some t0) (env_fullLocalDiscoveryInterval env)
             \<longleftrightarrow> env_fullLocalDiscoveryInterval env < env_now env - t0))
   \<and> (isSyncRunning f \<or> \<not> env_reloadExcludes env \<longrightarrow>
        engine (startSync env f) = engine f
        \<and> EngineStartSyncQueued
             \<notin> set (drop (length (effects f)) (effects (startSync env f))))"
proof (intro conjI impI)
  assume a: "\<not> isSyncRunning f \<and> env_reloadExcludes env"
  then show "\<exists>es. effects (startSync env f)
                    = effects f @ es @ [EngineStartSyncQueued, EmitSyncStarted]"
    by (intro startSync_started_effects) simp_all
  from a show "engine_localDiscoveryStyle (engine (startSync env f)) =
          (if (\<exists>w. folderWatcher f = Some w \<and> isReliable w)
              \<and> isValid (timeSinceLastFullLocalDiscovery f)
              \<and> (env_fullLocalDiscoveryInterval env < 0
                  \<or> \<not> hasExpired env (timeSinceLastFullLocalDiscovery f)
                         (env_fullLocalDiscoveryInterval env))
           then DatabaseAndFilesystem else FilesystemOnly)"
    by (intro startSync_started_style) simp_all
next
  assume "t0 \<le> env_now env \<and> env_now env - t0 < 2 ^ 64
       \<and> 0 \<le> env_fullLocalDiscoveryInterval env \<and> env_fullLocalDiscoveryInterval env < 2 ^ 64"
  then show "hasExpired env (Some t0) (env_fullLocalDiscoveryInterval env)
             \<longleftrightarrow> env_fullLocalDiscoveryInterval env < env_now env - t0"
    by (intro hasExpired_elapsed) simp_all
next
  assume b: "isSyncRunning f \<or> \<not> env_reloadExcludes env"
  then show "engine (startSync env f) = engine f"
    by (rule startSync_not_started)
  from b show "EngineStartSyncQueued
                 \<notin> set (drop (length (effects f)) (effects (startSync env f)))"
    by (rule startSync_not_started)
qed

theorem startSync_discovery_style_witness:
  "\<not> isSyncRunning discoveredFolder \<and> env_reloadExcludes sampleEnv
   \<and> engine_localDiscoveryStyle (engine (startSync sampleEnv discoveredFolder))
       = DatabaseAndFilesystem
   \<and> engine_localDiscoveryStyle (engine (startSync sampleEnv idleFolder)) = FilesystemOnly
   \<and> engine_localDiscoveryStyle
        (engine (startSync (sampleEnv\<lparr>env_now := 4000000\<rparr>) discoveredFolder))
       = FilesystemOnly
   \<and> engine_localDiscoveryStyle
        (engine (startSync (sampleEnv\<lparr>env_now := 4000000,
                                      env_fullLocalDiscoveryInterval := - 1\<rparr>) discoveredFolder))
       = DatabaseAndFilesystem
   \<and> engine_localDiscoveryStyle
        (engine (startSync sampleEnv
                   (discoveredFolder\<lparr>folderWatcher := Some \<lparr>isReliable = False\<rparr>\<rparr>)))
       = FilesystemOnly
   \<and> engine_localDiscoveryStyle
        (engine (startSync sampleEnv (discoveredFolder\<lparr>folderWatcher := None\<rparr>)))
       = FilesystemOnly
   \<and> isSyncRunning runningFolder
   \<and> engine (startSync sampleEnv runningFolder) = engine runningFolder"
  using startSync_discovery_style [of discoveredFolder sampleEnv 0]
        startSync_discovery_style [of idleFolder sampleEnv 0]
        startSync_discovery_style [of discoveredFolder "sampleEnv\<lparr>env_now := 4000000\<rparr>" 0]
        startSync_discovery_style [of discoveredFolder
          "sampleEnv\<lparr>env_now := 4000000, env_fullLocalDiscoveryInterval := - 1\<rparr>" 0]
        startSync_discovery_style
          [of "discoveredFolder\<lparr>folderWatcher := Some \<lparr>isReliable = False\<rparr>\<rparr>" sampleEnv 0]
        startSync_discovery_style [of "discoveredFolder\<lparr>folderWatcher := None\<rparr>" sampleEnv 0]
        startSync_discovery_style [of runningFolder sampleEnv 0]
  by (simp add: isSyncRunning_def hasSetupError_def isValid_def sampleEnv_def
        discoveredFolder_def runningFolder_def idleFolder_def idleEngine_def plainVfs_def)



section \<open>The unlock loop over the parent directories\<close>

lemma lastIndexOf_none: "lastIndexOf s c = - 1 \<longleftrightarrow> c \<notin> set s"
proof (induction s)
  case Nil
  then show ?case by simp
next
  case (Cons x xs)
  from lastIndexOf_bounds [of xs c] have "lastIndexOf xs c + 1 \<noteq> - 1" by simp
  with Cons show ?case by auto
qed

lemma lastIndexOf_split:
  "c \<in> set s \<Longrightarrow> \<exists>pre rest. s = pre @ c # rest \<and> c \<notin> set rest \<and> lastIndexOf s c = int (length pre)"
proof (induction s)
  case Nil
  then show ?case by simp
next
  case (Cons x xs)
  show ?case
  proof (cases "c \<in> set xs")
    case True
    with Cons.IH obtain pre rest where
      h: "xs = pre @ c # rest" "c \<notin> set rest" "lastIndexOf xs c = int (length pre)"
      by blast
    then have "x # xs = (x # pre) @ c # rest \<and> c \<notin> set rest
        \<and> lastIndexOf (x # xs) c = int (length (x # pre))"
      by simp
    then show ?thesis by blast
  next
    case False
    with Cons.prems have "x = c" by simp
    moreover from False have "lastIndexOf xs c = - 1" by (simp add: lastIndexOf_none)
    ultimately have "x # xs = [] @ c # xs \<and> c \<notin> set xs \<and> lastIndexOf (x # xs) c = int (length ([]::char list))"
      using False by simp
    then show ?thesis by blast
  qed
qed

lemma ancestor_none: "CHR ''/'' \<notin> set p \<Longrightarrow> \<not> isAncestorDirectoryOf a p"
  by (metis isAncestorDirectoryOf_def nth_mem)

lemma ancestor_step:
  assumes "CHR ''/'' \<notin> set rest"
  shows "isAncestorDirectoryOf a (pre @ CHR ''/'' # rest)
         \<longleftrightarrow> a = pre \<or> isAncestorDirectoryOf a pre"
proof (cases "length a < length pre")
  case True
  then have "a \<noteq> pre" by auto
  with True show ?thesis
    by (simp add: isAncestorDirectoryOf_def nth_append)
next
  case False
  note nl = this
  show ?thesis
  proof (cases "length a = length pre")
    case True
    then have "isAncestorDirectoryOf a (pre @ CHR ''/'' # rest) \<longleftrightarrow> pre = a"
      by (simp add: isAncestorDirectoryOf_def nth_append)
    moreover from True have "\<not> isAncestorDirectoryOf a pre"
      by (simp add: isAncestorDirectoryOf_def)
    ultimately show ?thesis by auto
  next
    case False
    with nl have g: "length pre < length a" by simp
    have "\<not> isAncestorDirectoryOf a (pre @ CHR ''/'' # rest)"
    proof
      assume "isAncestorDirectoryOf a (pre @ CHR ''/'' # rest)"
      then have l: "length a < length pre + Suc (length rest)"
        and n: "(pre @ CHR ''/'' # rest) ! length a = CHR ''/''"
        by (simp_all add: isAncestorDirectoryOf_def)
      from g obtain k where k: "length a = length pre + Suc k"
        by (metis less_imp_Suc_add add_Suc_right)
      with l have "k < length rest" by simp
      moreover from n k have "rest ! k = CHR ''/''"
        by (simp add: nth_append)
      ultimately have "CHR ''/'' \<in> set rest" by (metis nth_mem)
      with assms show False by simp
    qed
    moreover from g have "a \<noteq> pre" by auto
    moreover from g have "\<not> isAncestorDirectoryOf a pre"
      by (simp add: isAncestorDirectoryOf_def)
    ultimately show ?thesis by simp
  qed
qed

lemma wipeParentSoftErrors_blacklist:
  "errorBlacklist (wipeParentSoftErrors p j) a =
     (if isAncestorDirectoryOf a p
         \<and> (\<exists>r. errorBlacklist j a = Some r \<and> errorCategory r = LocalSoftError)
      then None else errorBlacklist j a)"
proof (induction p j rule: wipeParentSoftErrors.induct)
  case (1 p j)
  show ?case
  proof (cases "lastIndexOf p CHR ''/'' = - 1")
    case True
    then have "CHR ''/'' \<notin> set p" by (simp add: lastIndexOf_none)
    then have "\<not> isAncestorDirectoryOf a p" by (rule ancestor_none)
    moreover from True have "wipeParentSoftErrors p j = j"
      by (subst wipeParentSoftErrors.simps) simp
    ultimately show ?thesis by simp
  next
    case False
    then have "CHR ''/'' \<in> set p" by (simp add: lastIndexOf_none)
    then obtain pre rest where
      s: "p = pre @ CHR ''/'' # rest" "CHR ''/'' \<notin> set rest"
         "lastIndexOf p CHR ''/'' = int (length pre)"
      using lastIndexOf_split by blast
    then have l: "left p (lastIndexOf p CHR ''/'') = pre"
      by (simp add: left_def)
    let ?j' = "case errorBlacklistEntry j pre of None \<Rightarrow> j
               | Some rec \<Rightarrow> if errorCategory rec = LocalSoftError
                             then wipeErrorBlacklistEntry pre j else j"
    have u: "wipeParentSoftErrors p j = wipeParentSoftErrors pre ?j'"
      by (subst wipeParentSoftErrors.simps, unfold l) (simp add: False)
    have ih: "errorBlacklist (wipeParentSoftErrors pre ?j') a =
       (if isAncestorDirectoryOf a pre
           \<and> (\<exists>r. errorBlacklist ?j' a = Some r \<and> errorCategory r = LocalSoftError)
        then None else errorBlacklist ?j' a)"
      using "1.IH" [OF False] unfolding l .
    have j': "errorBlacklist ?j' a =
       (if a = pre \<and> (\<exists>r. errorBlacklist j a = Some r \<and> errorCategory r = LocalSoftError)
        then None else errorBlacklist j a)"
      by (auto simp add: errorBlacklistEntry_def wipeErrorBlacklistEntry_def split: option.splits)
    have anc: "isAncestorDirectoryOf a p \<longleftrightarrow> a = pre \<or> isAncestorDirectoryOf a pre"
      unfolding s(1) using s(2) by (rule ancestor_step)
    have np: "\<not> isAncestorDirectoryOf pre pre"
      by (simp add: isAncestorDirectoryOf_def)
    show ?thesis
    proof (cases "a = pre")
      case True
      with u ih j' anc np show ?thesis by simp
    next
      case False
      with u ih j' anc show ?thesis by auto
    qed
  qed
qed

lemma wipeParentSoftErrors_fileRecords:
  "fileRecords (wipeParentSoftErrors p j) = fileRecords j"
proof (induction p j rule: wipeParentSoftErrors.induct)
  case (1 p j)
  show ?case
  proof (cases "lastIndexOf p CHR ''/'' = - 1")
    case True
    then show ?thesis by (subst wipeParentSoftErrors.simps) simp
  next
    case False
    have "fileRecords (wipeParentSoftErrors p j)
      = fileRecords (case errorBlacklistEntry j (left p (lastIndexOf p CHR ''/'')) of
                None \<Rightarrow> j
              | Some rec \<Rightarrow>
                  if errorCategory rec = LocalSoftError
                  then wipeErrorBlacklistEntry (left p (lastIndexOf p CHR ''/'')) j
                  else j)"
      using False "1.IH" [OF False] by (subst wipeParentSoftErrors.simps) simp
    also have "\<dots> = fileRecords j"
      by (simp add: wipeErrorBlacklistEntry_def split: option.splits)
    finally show ?thesis .
  qed
qed

section \<open>Watcher notifications\<close>

lemma addTouchedPath_sel [simp]:
  "journal (addTouchedPath r f) = journal f"
  "engine (addTouchedPath r f) = engine f"
  "vfs (addTouchedPath r f) = vfs f"
  "effects (addTouchedPath r f) = effects f"
  "canonicalLocalPath (addTouchedPath r f) = canonicalLocalPath f"
  "scheduleSelfTimerActive (addTouchedPath r f) = scheduleSelfTimerActive f"
  "localDiscoveryPaths (localDiscoveryTracker (addTouchedPath r f))
     = insert r (localDiscoveryPaths (localDiscoveryTracker f))"
  by (simp_all add: addTouchedPath_def)

lemma wipeSoftErrorsOnUnlock_sel [simp]:
  "journal (wipeSoftErrorsOnUnlock r f)
     = wipeParentSoftErrors r (wipeErrorBlacklistEntryCategory r LocalSoftError (journal f))"
  "engine (wipeSoftErrorsOnUnlock r f) = engine f"
  "vfs (wipeSoftErrorsOnUnlock r f) = vfs f"
  "effects (wipeSoftErrorsOnUnlock r f) = effects f"
  "canonicalLocalPath (wipeSoftErrorsOnUnlock r f) = canonicalLocalPath f"
  "scheduleSelfTimerActive (wipeSoftErrorsOnUnlock r f) = scheduleSelfTimerActive f"
  "localDiscoveryTracker (wipeSoftErrorsOnUnlock r f) = localDiscoveryTracker f"
  by (simp_all add: wipeSoftErrorsOnUnlock_def)

lemma warnOnNewExcludedItem_sel [simp]:
  "journal (warnOnNewExcludedItem env rc r f) = journal f"
  "localDiscoveryTracker (warnOnNewExcludedItem env rc r f) = localDiscoveryTracker f"
  "scheduleSelfTimerActive (warnOnNewExcludedItem env rc r f) = scheduleSelfTimerActive f"
  by (simp_all add: warnOnNewExcludedItem_def Let_def split: prod.splits)

lemma scheduleThisFolderSoon_sel [simp]:
  "journal (scheduleThisFolderSoon f) = journal f"
  "localDiscoveryTracker (scheduleThisFolderSoon f) = localDiscoveryTracker f"
  "scheduleSelfTimerActive (scheduleThisFolderSoon f)"
  "effects (scheduleThisFolderSoon f) = effects f"
  by (simp_all add: scheduleThisFolderSoon_def)

lemma notifyAndSchedule_sel [simp]:
  "journal (notifyAndSchedule env p r reason f) = journal f"
  "localDiscoveryTracker (notifyAndSchedule env p r reason f) = localDiscoveryTracker f"
  by (simp_all add: notifyAndSchedule_def)

lemma notifyAndSchedule_timer:
  "scheduleSelfTimerActive (notifyAndSchedule env p r reason f) =
     (if (\<not> watch_osMac env \<and> engine_wasFileTouched (engine f) p)
         \<or> (reason \<noteq> UnLock \<and> spurious env f p r (getFileRecord (journal f) r))
      then scheduleSelfTimerActive f else True)"
  by (simp add: notifyAndSchedule_def)

lemma notifyAndSchedule_skipped:
  "(\<not> watch_osMac env \<and> engine_wasFileTouched (engine f) p)
         \<or> (reason \<noteq> UnLock \<and> spurious env f p r (getFileRecord (journal f) r))
   \<Longrightarrow> notifyAndSchedule env p r reason f = f"
  by (auto simp add: notifyAndSchedule_def)

lemma spurious_vfs: "vfs g = vfs f \<Longrightarrow> spurious env g p r rc = spurious env f p r rc"
  by (simp add: spurious_def cong: option.case_cong)

lemma spurious_addTouchedPath [simp]:
  "spurious env (addTouchedPath r' f) p r rc = spurious env f p r rc"
  by (rule spurious_vfs) simp

lemma slotWatchedPathChanged_journal:
  "watch_isChildPathOf env p (path f) \<Longrightarrow>
   journal (slotWatchedPathChanged env p reason f) =
     (if reason = UnLock
      then wipeParentSoftErrors (mid p (length (path f)))
             (wipeErrorBlacklistEntryCategory (mid p (length (path f))) LocalSoftError (journal f))
      else journal f)"
  by (simp add: slotWatchedPathChanged_def Let_def)

lemma slotWatchedPathChanged_touched:
  "watch_isChildPathOf env p (path f) \<Longrightarrow>
   localDiscoveryPaths (localDiscoveryTracker (slotWatchedPathChanged env p reason f)) =
     insert (mid p (length (path f))) (localDiscoveryPaths (localDiscoveryTracker f))"
  by (simp add: slotWatchedPathChanged_def Let_def)

lemma slotWatchedPathChanged_timer:
  "watch_isChildPathOf env p (path f) \<Longrightarrow>
   scheduleSelfTimerActive (slotWatchedPathChanged env p reason f) =
     (if (\<not> watch_osMac env \<and> engine_wasFileTouched (engine f) p)
         \<or> (reason \<noteq> UnLock
             \<and> spurious env f p (mid p (length (path f)))
                  (getFileRecord (journal f) (mid p (length (path f)))))
      then scheduleSelfTimerActive f else True)"
  by (simp add: slotWatchedPathChanged_def Let_def notifyAndSchedule_timer)

lemma slotWatchedPathChanged_skipped:
  "watch_isChildPathOf env p (path f) \<Longrightarrow>
   (\<not> watch_osMac env \<and> engine_wasFileTouched (engine f) p)
         \<or> (reason \<noteq> UnLock
             \<and> spurious env f p (mid p (length (path f)))
                  (getFileRecord (journal f) (mid p (length (path f))))) \<Longrightarrow>
   effects (slotWatchedPathChanged env p reason f) = effects f"
  by (auto simp add: slotWatchedPathChanged_def Let_def notifyAndSchedule_def)

lemma wipeEntryCategory_blacklist:
  "errorBlacklist (wipeErrorBlacklistEntryCategory p c j) a =
     (if a = p \<and> (\<exists>r. errorBlacklist j a = Some r \<and> errorCategory r = c)
      then None else errorBlacklist j a)"
  by (auto simp add: wipeErrorBlacklistEntryCategory_def wipeErrorBlacklistEntry_def
        split: option.splits)

lemma unlock_blacklist:
  "errorBlacklist (wipeParentSoftErrors rel
       (wipeErrorBlacklistEntryCategory rel LocalSoftError j)) a =
     (if (a = rel \<or> isAncestorDirectoryOf a rel)
         \<and> (\<exists>r. errorBlacklist j a = Some r \<and> errorCategory r = LocalSoftError)
      then None else errorBlacklist j a)"
  by (auto simp add: wipeParentSoftErrors_blacklist wipeEntryCategory_blacklist)

lemma newFolder_journal:
  "newFolder d fi now db e v = Inr g \<Longrightarrow> journal g = wipeErrorBlacklistCategory LocalSoftError db"
  by (auto simp add: newFolder_def Let_def split: prod.splits if_splits)

lemma newFolder_valid:
  "snd (checkLocalPath d fi) = [] \<Longrightarrow> \<exists>g. newFolder d fi now db e v = Inr g"
  by (auto simp add: newFolder_def Let_def split: prod.splits)

lemma wipeCategory_none:
  "errorBlacklist (wipeErrorBlacklistCategory c j) a = Some r \<Longrightarrow> errorCategory r \<noteq> c"
  by (auto simp add: wipeErrorBlacklistCategory_def split: option.splits if_splits)

lemma spurious_iff:
  "spurious env f p r rc \<longleftrightarrow>
     (\<exists>record. rc = Some record
        \<and> \<not> watch_fileChanged env p (rec_fileSize record) (rec_modtime record)
        \<and> \<not> (pinState (vfs f) r = Some AlwaysLocal \<and> isVirtualFile record)
        \<and> \<not> (pinState (vfs f) r = Some OnlineOnly \<and> isFile record))"
  by (auto simp add: spurious_def split: option.splits)

text \<open>
  C5, as stated, fails: a notification for a path inside the sync root that the sync
  engine has touched itself is recorded in the touched-path set, but it does not
  schedule a sync run.
\<close>

theorem watchedPath_own_change_counterexample:
  "\<not> (watch_isChildPathOf linuxWatch ''/home/u/docs/a.txt'' (path ownChangeFolder) \<longrightarrow>
        mid ''/home/u/docs/a.txt'' (length (path ownChangeFolder))
          \<in> localDiscoveryPaths (localDiscoveryTracker
               (slotWatchedPathChanged linuxWatch ''/home/u/docs/a.txt'' Other ownChangeFolder))
        \<and> scheduleSelfTimerActive
            (slotWatchedPathChanged linuxWatch ''/home/u/docs/a.txt'' Other ownChangeFolder))"
proof -
  have c: "watch_isChildPathOf linuxWatch ''/home/u/docs/a.txt'' (path ownChangeFolder)"
    by (simp add: linuxWatch_def path_def ownChangeFolder_def idleFolder_def)
  have "\<not> scheduleSelfTimerActive
            (slotWatchedPathChanged linuxWatch ''/home/u/docs/a.txt'' Other ownChangeFolder)"
    by (simp add: slotWatchedPathChanged_timer [OF c])
       (simp add: linuxWatch_def ownChangeFolder_def idleFolder_def)
  with c show ?thesis by simp
qed

text \<open>
  C5, amended. Every watcher notification carrying a path contained in the sync root
  appends that path, relative to the root, to the touched-path set used by local
  discovery. It schedules a sync run for the folder (arms the single-shot timer)
  unless the change is the sync engine's own (the engine touched the file; not
  checked on macOS) or the notification, of a reason other than unlock, is spurious:
  the journal has a record of the path, size and modification time of the file are
  those of the record, and the pin state does not contradict the record (always
  local on a virtual file, online only on a hydrated file). In these two cases
  nothing is scheduled and nothing is emitted.
\<close>

theorem watchedPath_touched_and_scheduled:
  assumes "watch_isChildPathOf env p (path f)"
  shows "mid p (length (path f))
           \<in> localDiscoveryPaths (localDiscoveryTracker (slotWatchedPathChanged env p reason f))
     \<and> (if (\<not> watch_osMac env \<and> engine_wasFileTouched (engine f) p)
            \<or> (reason \<noteq> UnLock
                \<and> (\<exists>record. getFileRecord (journal f) (mid p (length (path f))) = Some record
                     \<and> \<not> watch_fileChanged env p (rec_fileSize record) (rec_modtime record)
                     \<and> \<not> (pinState (vfs f) (mid p (length (path f))) = Some AlwaysLocal
                            \<and> isVirtualFile record)
                     \<and> \<not> (pinState (vfs f) (mid p (length (path f))) = Some OnlineOnly
                            \<and> isFile record)))
         then scheduleSelfTimerActive (slotWatchedPathChanged env p reason f)
                = scheduleSelfTimerActive f
              \<and> effects (slotWatchedPathChanged env p reason f) = effects f
         else scheduleSelfTimerActive (slotWatchedPathChanged env p reason f))"
proof -
  let ?rel = "mid p (length (path f))"
  let ?skip = "(\<not> watch_osMac env \<and> engine_wasFileTouched (engine f) p)
         \<or> (reason \<noteq> UnLock \<and> spurious env f p ?rel (getFileRecord (journal f) ?rel))"
  have t: "?rel \<in> localDiscoveryPaths
              (localDiscoveryTracker (slotWatchedPathChanged env p reason f))"
    by (simp add: slotWatchedPathChanged_touched [OF assms])
  have s: "scheduleSelfTimerActive (slotWatchedPathChanged env p reason f)
             = (if ?skip then scheduleSelfTimerActive f else True)"
    by (rule slotWatchedPathChanged_timer [OF assms])
  have e: "?skip \<Longrightarrow> effects (slotWatchedPathChanged env p reason f) = effects f"
    by (rule slotWatchedPathChanged_skipped [OF assms])
  have main: "?rel \<in> localDiscoveryPaths
                  (localDiscoveryTracker (slotWatchedPathChanged env p reason f))
     \<and> (if ?skip
         then scheduleSelfTimerActive (slotWatchedPathChanged env p reason f)
                = scheduleSelfTimerActive f
              \<and> effects (slotWatchedPathChanged env p reason f) = effects f
         else scheduleSelfTimerActive (slotWatchedPathChanged env p reason f))"
  proof (cases ?skip)
    case True
    with t s e show ?thesis by simp
  next
    case False
    with t s show ?thesis by auto
  qed
  then show ?thesis
    unfolding spurious_iff .
qed

theorem watchedPath_touched_and_scheduled_witness:
  "watch_isChildPathOf linuxWatch ''/home/u/docs/a.txt'' (path idleFolder)
   \<and> ''a.txt'' \<in> localDiscoveryPaths (localDiscoveryTracker
        (slotWatchedPathChanged linuxWatch ''/home/u/docs/a.txt'' Other idleFolder))
   \<and> scheduleSelfTimerActive
        (slotWatchedPathChanged linuxWatch ''/home/u/docs/a.txt'' Other idleFolder)
   \<and> ''a.txt'' \<in> localDiscoveryPaths (localDiscoveryTracker
        (slotWatchedPathChanged linuxWatch ''/home/u/docs/a.txt'' Other ownChangeFolder))
   \<and> \<not> scheduleSelfTimerActive
        (slotWatchedPathChanged linuxWatch ''/home/u/docs/a.txt'' Other ownChangeFolder)
   \<and> ''a.txt'' \<in> localDiscoveryPaths (localDiscoveryTracker
        (slotWatchedPathChanged quietWatch ''/home/u/docs/a.txt'' Other syncedFolder))
   \<and> \<not> scheduleSelfTimerActive
        (slotWatchedPathChanged quietWatch ''/home/u/docs/a.txt'' Other syncedFolder)
   \<and> scheduleSelfTimerActive
        (slotWatchedPathChanged quietWatch ''/home/u/docs/a.txt'' UnLock syncedFolder)"
  using watchedPath_touched_and_scheduled
          [of linuxWatch "''/home/u/docs/a.txt''" idleFolder Other]
        watchedPath_touched_and_scheduled
          [of linuxWatch "''/home/u/docs/a.txt''" ownChangeFolder Other]
        watchedPath_touched_and_scheduled
          [of quietWatch "''/home/u/docs/a.txt''" syncedFolder Other]
        watchedPath_touched_and_scheduled
          [of quietWatch "''/home/u/docs/a.txt''" syncedFolder UnLock]
  by (simp add: linuxWatch_def quietWatch_def path_def mid_def getFileRecord_def
        ownChangeFolder_def syncedFolder_def idleFolder_def idleEngine_def plainVfs_def
        emptyJournal_def)

section \<open>Soft local errors\<close>

text \<open>
  C6. For every path inside the folder, a notification with reason unlock leaves no
  \<open>LocalSoftError\<close> entry for the (relative) path in the error blacklist, and wipes
  the entry of every ancestor directory of the path whose entry has category
  \<open>LocalSoftError\<close>; all other entries are left as they were. A folder constructed
  with a valid local path has a journal without any \<open>LocalSoftError\<close> entry.
\<close>

theorem unlock_wipes_soft_errors:
  "(watch_isChildPathOf env p (path f) \<longrightarrow>
      (errorBlacklist (journal (slotWatchedPathChanged env p UnLock f)) (mid p (length (path f)))
         = Some r \<longrightarrow> errorCategory r \<noteq> LocalSoftError)
      \<and> (isAncestorDirectoryOf a (mid p (length (path f)))
          \<and> errorBlacklist (journal f) a = Some r \<and> errorCategory r = LocalSoftError
          \<longrightarrow> errorBlacklist (journal (slotWatchedPathChanged env p UnLock f)) a = None)
      \<and> errorBlacklist (journal (slotWatchedPathChanged env p UnLock f)) b =
          (if (b = mid p (length (path f)) \<or> isAncestorDirectoryOf b (mid p (length (path f))))
              \<and> (\<exists>r'. errorBlacklist (journal f) b = Some r'
                        \<and> errorCategory r' = LocalSoftError)
           then None else errorBlacklist (journal f) b))
   \<and> (snd (checkLocalPath d fi) = [] \<longrightarrow> (\<exists>g. newFolder d fi now db e v = Inr g))
   \<and> (newFolder d fi now db e v = Inr g \<and> errorBlacklist (journal g) b = Some r
        \<longrightarrow> errorCategory r \<noteq> LocalSoftError)"
proof (intro conjI impI)
  assume c: "watch_isChildPathOf env p (path f)"
  let ?rel = "mid p (length (path f))"
  have j: "journal (slotWatchedPathChanged env p UnLock f) =
             wipeParentSoftErrors ?rel
               (wipeErrorBlacklistEntryCategory ?rel LocalSoftError (journal f))"
    by (simp add: slotWatchedPathChanged_journal [OF c])
  show x: "errorBlacklist (journal (slotWatchedPathChanged env p UnLock f)) b =
          (if (b = ?rel \<or> isAncestorDirectoryOf b ?rel)
              \<and> (\<exists>r'. errorBlacklist (journal f) b = Some r'
                        \<and> errorCategory r' = LocalSoftError)
           then None else errorBlacklist (journal f) b)" for b
    unfolding j by (rule unlock_blacklist)
  {
    assume "errorBlacklist (journal (slotWatchedPathChanged env p UnLock f)) ?rel = Some r"
    then show "errorCategory r \<noteq> LocalSoftError"
      unfolding x [of ?rel] by (auto split: if_splits)
  }
  {
    assume "isAncestorDirectoryOf a ?rel
          \<and> errorBlacklist (journal f) a = Some r \<and> errorCategory r = LocalSoftError"
    then show "errorBlacklist (journal (slotWatchedPathChanged env p UnLock f)) a = None"
      unfolding x [of a] by auto
  }
next
  assume "snd (checkLocalPath d fi) = []"
  then show "\<exists>g. newFolder d fi now db e v = Inr g"
    by (rule newFolder_valid)
next
  assume "newFolder d fi now db e v = Inr g \<and> errorBlacklist (journal g) b = Some r"
  then have "errorBlacklist (wipeErrorBlacklistCategory LocalSoftError db) b = Some r"
    using newFolder_journal [of d fi now db e v g] by simp
  then show "errorCategory r \<noteq> LocalSoftError"
    by (rule wipeCategory_none)
qed

theorem unlock_wipes_soft_errors_witness:
  "watch_isChildPathOf linuxWatch ''/home/u/docs/a/b/c.txt'' (path lockedFolder)
   \<and> mid ''/home/u/docs/a/b/c.txt'' (length (path lockedFolder)) = ''a/b/c.txt''
   \<and> errorBlacklist (journal
        (slotWatchedPathChanged linuxWatch ''/home/u/docs/a/b/c.txt'' UnLock lockedFolder))
        ''a/b/c.txt'' = None
   \<and> isAncestorDirectoryOf ''a/b'' ''a/b/c.txt''
   \<and> errorBlacklist (journal lockedFolder) ''a/b'' = Some softError
   \<and> errorBlacklist (journal
        (slotWatchedPathChanged linuxWatch ''/home/u/docs/a/b/c.txt'' UnLock lockedFolder))
        ''a/b'' = None
   \<and> errorBlacklist (journal
        (slotWatchedPathChanged linuxWatch ''/home/u/docs/a/b/c.txt'' UnLock lockedFolder))
        ''a'' = Some normalError
   \<and> errorBlacklist (journal
        (slotWatchedPathChanged linuxWatch ''/home/u/docs/a/b/c.txt'' UnLock lockedFolder))
        ''x.txt'' = Some softError
   \<and> snd (checkLocalPath docsDefinition usableDir) = []
   \<and> (\<exists>g. newFolder docsDefinition usableDir 0 lockedJournal idleEngine plainVfs = Inr g
          \<and> errorBlacklist (journal g) ''x.txt'' = None
          \<and> errorBlacklist (journal g) ''a'' = Some normalError)"
proof -
  have c: "watch_isChildPathOf linuxWatch ''/home/u/docs/a/b/c.txt'' (path lockedFolder)"
    by (simp add: linuxWatch_def path_def lockedFolder_def idleFolder_def)
  have m: "mid ''/home/u/docs/a/b/c.txt'' (length (path lockedFolder)) = ''a/b/c.txt''"
    by (simp add: mid_def path_def lockedFolder_def idleFolder_def)
  have v: "snd (checkLocalPath docsDefinition usableDir) = []"
    by (simp add: checkLocalPath_def docsDefinition_def usableDir_def endsWith_def)
  have k: "errorBlacklist (journal lockedFolder) =
             [''a/b/c.txt'' \<mapsto> softError, ''a/b'' \<mapsto> softError, ''a'' \<mapsto> normalError,
              ''x.txt'' \<mapsto> softError]"
    by (simp add: lockedFolder_def lockedJournal_def)
  have s: "errorCategory softError = LocalSoftError" "errorCategory normalError = Normal"
    by (simp_all add: softError_def normalError_def)
  have a: "isAncestorDirectoryOf ''a/b'' ''a/b/c.txt''"
          "\<not> isAncestorDirectoryOf ''x.txt'' ''a/b/c.txt''"
    by (simp_all add: isAncestorDirectoryOf_def)
  from unlock_wipes_soft_errors
         [of linuxWatch "''/home/u/docs/a/b/c.txt''" lockedFolder softError "''a/b''"
             "''a/b/c.txt''" docsDefinition usableDir 0 lockedJournal idleEngine plainVfs]
       c m k s a
  have 1: "errorBlacklist (journal
        (slotWatchedPathChanged linuxWatch ''/home/u/docs/a/b/c.txt'' UnLock lockedFolder))
        ''a/b/c.txt'' = None"
    and 2: "errorBlacklist (journal
        (slotWatchedPathChanged linuxWatch ''/home/u/docs/a/b/c.txt'' UnLock lockedFolder))
        ''a/b'' = None"
    by simp_all
  from unlock_wipes_soft_errors
         [of linuxWatch "''/home/u/docs/a/b/c.txt''" lockedFolder softError "''a/b''"
             "''a''" docsDefinition usableDir 0 lockedJournal idleEngine plainVfs]
       c m k s
  have 3: "errorBlacklist (journal
        (slotWatchedPathChanged linuxWatch ''/home/u/docs/a/b/c.txt'' UnLock lockedFolder))
        ''a'' = Some normalError"
    by simp
  from unlock_wipes_soft_errors
         [of linuxWatch "''/home/u/docs/a/b/c.txt''" lockedFolder softError "''a/b''"
             "''x.txt''" docsDefinition usableDir 0 lockedJournal idleEngine plainVfs]
       c m k s a
  have 4: "errorBlacklist (journal
        (slotWatchedPathChanged linuxWatch ''/home/u/docs/a/b/c.txt'' UnLock lockedFolder))
        ''x.txt'' = Some softError"
    by simp
  have 5: "\<exists>g. newFolder docsDefinition usableDir 0 lockedJournal idleEngine plainVfs = Inr g
          \<and> errorBlacklist (journal g) ''x.txt'' = None
          \<and> errorBlacklist (journal g) ''a'' = Some normalError"
  proof -
    obtain cp where cl: "checkLocalPath docsDefinition usableDir = (cp, [])"
      using v by (cases "checkLocalPath docsDefinition usableDir") auto
    show ?thesis
      by (simp add: newFolder_def Let_def cl wipeErrorBlacklistCategory_def lockedJournal_def
            emptyJournal_def softError_def normalError_def)
  qed
  from c m 1 a(1) k 2 3 4 v 5 show ?thesis by simp
qed

end
